theory Spec2Isabelle
  imports Complex_Main
begin

section \<open>Python values and errors\<close>

text \<open>
  Exceptions of the Python source are values of \<open>error\<close>; a function that can raise
  returns \<open>error + 'a\<close>, with \<open>Inl\<close> for the exception.
\<close>

datatype error =
  TypeError | ValueError | IndexError | AttributeError | RecursionError | ZeroDivisionError

text \<open>
  What \<open>resolve_unit\<close> can return: \<open>None\<close>, a \<open>str\<close>, the \<open>int\<close> 1, a \<open>float\<close> read
  from a literal (kept as the literal's text), an attribute of the unit registry
  (\<open>ureg.hartree\<close> is \<open>PUnit ''hartree''\<close>), or the result of \<open>/\<close>, \<open>*\<close> or \<open>**\<close>
  on two such values. The arithmetic of \<open>float\<close> and of the unit registry is outside the
  repository, so a result of an operator is the term that records the operation and
  its operands in the order Python applies them.
\<close>

datatype binop = TrueDiv | Mul | Pow

datatype pyval =
    PNone
  | PStr string
  | PInt int
  | PFloat string
  | PUnit string
  | PBin binop pyval pyval

section \<open>String operations of Python used by the resolver\<close>

text \<open>Strings are ASCII text; \<open>str.lower\<close> changes the letters A to Z only.\<close>

definition lower_char :: "char \<Rightarrow> char" where
  "lower_char c =
     (case map_of (zip ''ABCDEFGHIJKLMNOPQRSTUVWXYZ'' ''abcdefghijklmnopqrstuvwxyz'') c of
        Some l \<Rightarrow> l
      | None \<Rightarrow> c)"

definition lower :: "string \<Rightarrow> string" where
  "lower s = map lower_char s"

text \<open>\<open>unit_str.lower().replace(" ", "")\<close>\<close>

definition normalized :: "string \<Rightarrow> string" where
  "normalized s = filter (\<lambda>c. c \<noteq> CHR '' '') (lower s)"

text \<open>\<open>s.find(c)\<close>, \<open>s.rfind(c)\<close> and \<open>s.count(c)\<close> for a one-character \<open>c\<close>.\<close>

definition py_find :: "string \<Rightarrow> char \<Rightarrow> int" where
  "py_find s c = (if c \<in> set s then int (length (takeWhile (\<lambda>x. x \<noteq> c) s)) else - 1)"

definition py_rfind :: "string \<Rightarrow> char \<Rightarrow> int" where
  "py_rfind s c =
     (if c \<in> set s then int (length s - 1 - length (takeWhile (\<lambda>x. x \<noteq> c) (rev s)))
      else - 1)"

definition py_count :: "string \<Rightarrow> char \<Rightarrow> nat" where
  "py_count s c = length (filter (\<lambda>x. x = c) s)"

text \<open>\<open>s[:k]\<close>: a negative \<open>k\<close> counts from the end.\<close>

definition slice_to :: "string \<Rightarrow> int \<Rightarrow> string" where
  "slice_to s k = (if k < 0 then take (length s - nat (- k)) s else take (nat k) s)"

text \<open>\<open>s.split(sep)\<close> for a non-empty \<open>sep\<close>: cut at every occurrence, left to right.\<close>

fun py_split :: "string \<Rightarrow> string \<Rightarrow> string list" where
  "py_split [] sep = [[]]"
| "py_split (c # cs) sep =
     (if sep \<noteq> [] \<and> take (length sep) (c # cs) = sep
      then [] # py_split (drop (length sep) (c # cs)) sep
      else (case py_split cs sep of
              w # ws \<Rightarrow> (c # w) # ws
            | [] \<Rightarrow> [[c]]))"

text \<open>\<open>s.replace(old, new)\<close> for a non-empty \<open>old\<close>.\<close>

fun py_replace :: "string \<Rightarrow> string \<Rightarrow> string \<Rightarrow> string" where
  "py_replace [] old new = []"
| "py_replace (c # cs) old new =
     (if old \<noteq> [] \<and> take (length old) (c # cs) = old
      then new @ py_replace (drop (length old) (c # cs)) old new
      else c # py_replace cs old new)"

definition is_digit :: "char \<Rightarrow> bool" where
  "is_digit c = (c \<in> set ''0123456789'')"

text \<open>\<open>"%d" % n\<close> for \<open>n \<ge> 0\<close>, and \<open>int(ds)\<close> for a string of digits.\<close>

fun str_of_nat :: "nat \<Rightarrow> string" where
  "str_of_nat n =
     (if n < 10 then [''0123456789'' ! n]
      else str_of_nat (n div 10) @ [''0123456789'' ! (n mod 10)])"

definition digit_val :: "char \<Rightarrow> nat" where
  "digit_val c = length (takeWhile (\<lambda>x. x \<noteq> c) ''0123456789'')"

definition nat_of_digits :: "string \<Rightarrow> nat" where
  "nat_of_digits ds = foldl (\<lambda>n c. 10 * n + digit_val c) 0 ds"

subsection \<open>The strings \<open>float()\<close> accepts\<close>

text \<open>
  The methods of \<open>str\<close> (\<open>strip\<close>, \<open>split\<close>) count the characters 0x09 to 0x0D, 0x1C to 0x1F
  and the space as white space. \<open>float(s)\<close> and \<open>int(s)\<close> strip, in an ASCII string, the
  characters 0x09 to 0x0D and the space only.
\<close>

definition is_space :: "char \<Rightarrow> bool" where
  "is_space c = (c \<in> set [CHR 0x09, CHR 0x0A, CHR 0x0B, CHR 0x0C, CHR 0x0D,
                           CHR 0x1C, CHR 0x1D, CHR 0x1E, CHR 0x1F, CHR '' ''])"

definition py_strip :: "string \<Rightarrow> string" where
  "py_strip s = rev (dropWhile is_space (rev (dropWhile is_space s)))"

definition is_number_space :: "char \<Rightarrow> bool" where
  "is_number_space c =
     (c \<in> set [CHR 0x09, CHR 0x0A, CHR 0x0B, CHR 0x0C, CHR 0x0D, CHR '' ''])"

definition number_strip :: "string \<Rightarrow> string" where
  "number_strip s = rev (dropWhile is_number_space (rev (dropWhile is_number_space s)))"

text \<open>
  After the white space \<open>float(s)\<close> takes an optional sign, and then accepts
  \<open>inf\<close>, \<open>infinity\<close>, \<open>nan\<close> (in any case) or a decimal number: digits with single
  underscores between them, an optional point, an optional exponent.
\<close>

fun digitpart :: "string \<Rightarrow> bool" where
  "digitpart [] = False"
| "digitpart [c] = is_digit c"
| "digitpart (c # d # cs) =
     (is_digit c \<and> (if d = CHR ''_'' then digitpart cs else digitpart (d # cs)))"

definition drop_sign :: "string \<Rightarrow> string" where
  "drop_sign s =
     (case s of
        [] \<Rightarrow> []
      | c # cs \<Rightarrow> if c = CHR ''+'' \<or> c = CHR ''-'' then cs else s)"

definition pointnumber :: "string \<Rightarrow> bool" where
  "pointnumber m =
     (if CHR ''.'' \<in> set m
      then (let a = takeWhile (\<lambda>c. c \<noteq> CHR ''.'') m;
                b = tl (dropWhile (\<lambda>c. c \<noteq> CHR ''.'') m)
            in (digitpart b \<and> (a = [] \<or> digitpart a)) \<or> (digitpart a \<and> b = []))
      else digitpart m)"

definition floatnumber :: "string \<Rightarrow> bool" where
  "floatnumber s =
     (let m = takeWhile (\<lambda>c. c \<noteq> CHR ''e'') s;
          r = dropWhile (\<lambda>c. c \<noteq> CHR ''e'') s
      in pointnumber m \<and> (r = [] \<or> digitpart (drop_sign (tl r))))"

definition is_float :: "string \<Rightarrow> bool" where
  "is_float s =
     (let t = drop_sign (lower (number_strip s))
      in t \<in> set [''inf'', ''infinity'', ''nan''] \<or> floatnumber t)"

text \<open>A literal that \<open>float()\<close> accepts and that is written as zero: \<open>0\<close>, \<open>-0.0\<close>, \<open>0e5\<close>.\<close>

definition zero_literal :: "string \<Rightarrow> bool" where
  "zero_literal s =
     (is_float s \<and>
      list_all (\<lambda>c. c \<in> set ''0._'')
        (takeWhile (\<lambda>c. c \<noteq> CHR ''e'') (drop_sign (lower (number_strip s)))))"

subsection \<open>The operators\<close>

text \<open>
  An operand \<open>None\<close> makes every one of the three operators raise \<open>TypeError\<close>
  (neither \<open>int\<close>, \<open>float\<close> nor the registry's classes accept it), and a division by a
  number written as zero raises \<open>ZeroDivisionError\<close>. No other failure of the external
  arithmetic is derived here (a number that rounds to zero, an overflow, a unit as an
  exponent): the result is then the term of the operation.
\<close>

definition is_zero :: "pyval \<Rightarrow> bool" where
  "is_zero x = (case x of PInt n \<Rightarrow> n = 0 | PFloat s \<Rightarrow> zero_literal s | _ \<Rightarrow> False)"

definition py_binop :: "binop \<Rightarrow> pyval \<Rightarrow> pyval \<Rightarrow> error + pyval" where
  "py_binop f a b =
     (if a = PNone \<or> b = PNone then Inl TypeError
      else if f = TrueDiv \<and> is_zero b then Inl ZeroDivisionError
      else Inr (PBin f a b))"

subsection \<open>\<open>re.match(r"\[(\d+)\]", s)\<close>\<close>

text \<open>The match is anchored at the start only; the result is \<open>int(group(1))\<close>.\<close>

definition match_placeholder :: "string \<Rightarrow> nat option" where
  "match_placeholder s =
     (case s of
        [] \<Rightarrow> None
      | c # rest \<Rightarrow>
          if c = CHR ''[''
          then (let ds = takeWhile is_digit rest; r = dropWhile is_digit rest
                in if ds \<noteq> [] \<and> r \<noteq> [] \<and> hd r = CHR '']''
                   then Some (nat_of_digits ds) else None)
          else None)"

section \<open>The unit resolver\<close>

text \<open>
  \<open>units_map\<close>: the table of the source, key by key. \<open>au_t\<close> is \<open>ureg.hbar / ureg.hartree\<close>,
  computed when the module is loaded.
\<close>

definition units_map :: "string \<rightharpoonup> pyval" where
  "units_map = map_of
     [(''hbar'', PUnit ''hbar''),
      (''hartree'', PUnit ''hartree''),
      (''angstrom'', PUnit ''angstrom''),
      (''au_t'', PBin TrueDiv (PUnit ''hbar'') (PUnit ''hartree'')),
      (''fs'', PUnit ''femtosecond''),
      (''K'', PUnit ''kelvin'')]"

text \<open>\<open>[f(v) for v in vals]\<close>: left to right, the first exception ends it.\<close>

fun comprehension :: "('a \<Rightarrow> error + 'b) \<Rightarrow> 'a list \<Rightarrow> error + 'b list" where
  "comprehension f [] = Inr []"
| "comprehension f (v # vs) =
     (case f v of
        Inl e \<Rightarrow> Inl e
      | Inr x \<Rightarrow> (case comprehension f vs of Inl e \<Rightarrow> Inl e | Inr xs \<Rightarrow> Inr (x # xs)))"

text \<open>\<open>for v in vs: val = val <op> v\<close>\<close>

fun accumulate :: "binop \<Rightarrow> pyval \<Rightarrow> pyval list \<Rightarrow> error + pyval" where
  "accumulate f val [] = Inr val"
| "accumulate f val (v # vs) =
     (case py_binop f val v of Inl e \<Rightarrow> Inl e | Inr val' \<Rightarrow> accumulate f val' vs)"

text \<open>
  The loop over the parenthesised groups, \<open>for n in range(n_groups)\<close>, with the recursive
  call as a parameter. Its state is \<open>unit_str\<close>, \<open>parts\<close> and \<open>open_p\<close>.
\<close>

primrec groups_loop ::
  "(string \<Rightarrow> pyval list \<Rightarrow> error + pyval) \<Rightarrow> nat list \<Rightarrow> string \<Rightarrow> pyval list \<Rightarrow> int
     \<Rightarrow> error + (string \<times> pyval list)" where
  "groups_loop rec [] = (\<lambda>unit_str parts open_p. Inr (unit_str, parts))"
| "groups_loop rec (n # ns) = (\<lambda>unit_str parts open_p.
     (let part0 = drop (nat (open_p + 1)) unit_str;
          part = slice_to part0 (py_find part0 (CHR '')''))
      in case rec part parts of
           Inl e \<Rightarrow> Inl e
         | Inr r \<Rightarrow>
             (let unit_str' =
                    py_replace unit_str (''('' @ part @ '')'') (''['' @ str_of_nat n @ '']'')
              in groups_loop rec ns unit_str' (parts @ [r]) (py_rfind unit_str' (CHR ''('')))))"

text \<open>
  \<open>resolve_unit\<close>. The first argument is the number of nested calls Python still allows:
  the function calls itself, and the interpreter raises \<open>RecursionError\<close> when its
  recursion limit is reached. Falling off the end of the function returns \<open>None\<close>.
\<close>

primrec resolve_unit :: "nat \<Rightarrow> string \<Rightarrow> pyval list \<Rightarrow> error + pyval" where
  "resolve_unit 0 unit_str0 parts = Inl RecursionError"
| "resolve_unit (Suc d) unit_str0 parts =
     (let unit_str = normalized unit_str0 in
      case units_map unit_str of
        Some u \<Rightarrow> Inr u
      | None \<Rightarrow>
      if is_float unit_str then Inr (PFloat unit_str)
      else if unit_str = [] then Inr (PInt 1)
      else if py_rfind unit_str (CHR ''('') > - 1 then
        (let n_groups = py_count unit_str (CHR ''('') in
         if n_groups \<noteq> py_count unit_str (CHR '')'') then Inr (PStr unit_str)
         else (case groups_loop (resolve_unit d) [0..<n_groups] unit_str parts
                      (py_rfind unit_str (CHR ''('')) of
                 Inl e \<Rightarrow> Inl e
               | Inr (unit_str', parts') \<Rightarrow> resolve_unit d unit_str' parts'))
      else if length (py_split unit_str ''/'') > 1 then
        (case comprehension (\<lambda>v. resolve_unit d v parts) (py_split unit_str ''/'') of
           Inl e \<Rightarrow> Inl e
         | Inr vals \<Rightarrow> accumulate TrueDiv (hd vals) (tl vals))
      else if length (py_split unit_str ''**'') > 1 then
        (case comprehension (\<lambda>v. resolve_unit d v parts) (py_split unit_str ''**'') of
           Inl e \<Rightarrow> Inl e
         | Inr vals \<Rightarrow> accumulate Pow (hd vals) (rev (tl vals)))
      else if length (py_split unit_str ''^'') > 1 then
        (case comprehension (\<lambda>v. resolve_unit d v parts) (py_split unit_str ''^'') of
           Inl e \<Rightarrow> Inl e
         | Inr vals \<Rightarrow> accumulate Pow (hd vals) (rev (tl vals)))
      else if length (py_split unit_str ''*'') > 1 then
        (case comprehension (\<lambda>v. resolve_unit d v parts) (py_split unit_str ''*'') of
           Inl e \<Rightarrow> Inl e
         | Inr vals \<Rightarrow> accumulate Mul (PInt 1) vals)
      else if length (py_split unit_str ''-1'') = 2 then
        (case resolve_unit d (hd (py_split unit_str ''-1'')) parts of
           Inl e \<Rightarrow> Inl e
         | Inr v \<Rightarrow> py_binop TrueDiv (PInt 1) v)
      else (case match_placeholder unit_str of
              Some i \<Rightarrow> if i < length parts then Inr (parts ! i) else Inl IndexError
            | None \<Rightarrow> Inr PNone))"

section \<open>The input tree: \<open>InpValue\<close>\<close>

text \<open>
  A value stored in an \<open>InpValue\<close> is either a Python list of values or something else
  (in the input parser: a string or a nested \<open>InpValue\<close>); \<open>isinstance(x, list)\<close> tells the
  two apart.
\<close>

datatype 'a inp_item = Item 'a | ItemList "'a inp_item list"

text \<open>
  The object: its name, \<open>_data\<close> (a \<open>dict\<close>) and \<open>_dict\<close>, the cache of \<open>to_dict\<close>.
\<close>

record 'a inp_value =
  name :: string
  data :: "string \<rightharpoonup> 'a inp_item"
  dict_cache :: "(string \<rightharpoonup> 'a inp_item) option"

text \<open>\<open>x if isinstance(x, list) else [x]\<close>\<close>

fun as_list :: "'a inp_item \<Rightarrow> 'a inp_item list" where
  "as_list (ItemList xs) = xs"
| "as_list (Item x) = [Item x]"

text \<open>\<open>InpValue.add\<close>; the method changes \<open>_data\<close> only.\<close>

definition add :: "string \<Rightarrow> 'a inp_item \<Rightarrow> 'a inp_value \<Rightarrow> 'a inp_value" where
  "add key val self =
     (case data self key of
        Some old \<Rightarrow> self\<lparr>data := (data self)(key \<mapsto> ItemList (as_list old @ [val]))\<rparr>
      | None \<Rightarrow> self\<lparr>data := (data self)(key \<mapsto> val)\<rparr>)"

section \<open>The frame correlator of \<open>CP2KParser\<close>\<close>

subsection \<open>More of Python\<close>

text \<open>\<open>xs[i]\<close>: a negative index counts from the end, an index out of range raises.\<close>

definition py_index :: "'a list \<Rightarrow> int \<Rightarrow> error + 'a" where
  "py_index xs i =
     (if 0 \<le> i \<and> i < int (length xs) then Inr (xs ! nat i)
      else if i < 0 \<and> - int (length xs) \<le> i then Inr (xs ! nat (int (length xs) + i))
      else Inl IndexError)"

text \<open>\<open>xs.index(v)\<close>: the position of the first element equal to \<open>v\<close>.\<close>

definition list_index :: "'a list \<Rightarrow> 'a \<Rightarrow> error + nat" where
  "list_index xs v =
     (if v \<in> set xs then Inr (length (takeWhile (\<lambda>x. x \<noteq> v) xs)) else Inl ValueError)"

text \<open>\<open>s.split()\<close>: the words between runs of white space; \<open>cur\<close> is the word being read.\<close>

fun words :: "string \<Rightarrow> string \<Rightarrow> string list" where
  "words [] cur = (if cur = [] then [] else [cur])"
| "words (c # cs) cur =
     (if is_space c then (if cur = [] then words cs [] else cur # words cs [])
      else words cs (cur @ [c]))"

definition py_split_ws :: "string \<Rightarrow> string list" where
  "py_split_ws s = words s []"

text \<open>\<open>int(s)\<close> for a string.\<close>

definition py_int :: "string \<Rightarrow> error + int" where
  "py_int s =
     (let t = number_strip s; ds = drop_sign t
      in if digitpart ds
         then Inr ((if take 1 t = ''-'' then - 1 else 1) * int (nat_of_digits (filter is_digit ds)))
         else Inl ValueError)"

text \<open>\<open>os.path.join(a, b)\<close>\<close>

definition path_join :: "string \<Rightarrow> string \<Rightarrow> string" where
  "path_join a b =
     (if take 1 b = ''/'' then b
      else if a = [] \<or> last a = CHR ''/'' then a @ b
      else a @ ''/'' @ b)"

text \<open>\<open>"%s" % x\<close> where \<open>x\<close> is a string or \<open>None\<close>.\<close>

definition format_s :: "string option \<Rightarrow> string" where
  "format_s x = (case x of Some s \<Rightarrow> s | None \<Rightarrow> ''None'')"

text \<open>\<open>d.get(key, default)\<close>\<close>

definition dict_get :: "('k \<rightharpoonup> 'v) \<Rightarrow> 'k \<Rightarrow> 'v \<Rightarrow> 'v" where
  "dict_get d key dflt = (case d key of Some v \<Rightarrow> v | None \<Rightarrow> dflt)"

subsection \<open>The run and the parsers\<close>

text \<open>
  What the correlator reads and does not change during a lookup. The readers of files,
  the base classes of the parsers and the conversions to arrays belong to libraries
  outside the repository; what they answer is a field of the run:
  \<^item> \<open>inp\<close>: \<open>inp_parser.get(path)\<close>, for the paths with one string value;
  \<open>settings_md\<close>: \<open>settings["md"]\<close>;
  \<^item> \<open>single_point\<close>, \<open>geometry_optimization\<close>: whether the output has that section;
  \<open>molecular_dynamics\<close>: its section of that name, given by \<open>md_step\<close>
  (if any), the \<open>ensemble_type\<close> of each step (if any);
  \<^item> \<open>step_start\<close>: \<open>_step_start\<close>;
  \<^item> \<open>file_exists\<close>: the paths at which there is a file; the property \<open>mainfile\<close> of a
  parser of the library answers the path assigned to it only if the file is there;
  \<^item> \<open>logger_takes_data\<close>: whether \<open>self.logger\<close> accepts the keyword \<open>data\<close>. The logger
  that \<open>parse\<close> installs when it is given none, \<open>logging.getLogger\<close>, raises \<open>TypeError\<close>
  for it;
  \<^item> \<open>trajectory_file m f u\<close>: what the readers in the property \<open>TrajParser.trajectory\<close>
  make of the main file \<open>m\<close> (as the property \<open>mainfile\<close> answers it), the format \<open>f\<close> and
  the units \<open>u\<close>: an exception, \<open>None\<close> when no reader could read the file, or the list of
  frames with the recorded iterations \<open>iter\<close>;
  \<^item> \<open>data_file m\<close>: \<open>DataTextParser.data\<close> for the main file \<open>m\<close>, a list of rows;
  \<^item> \<open>coord\<close>: if the input has inline coordinates (\<open>COORD/DEFAULT_KEYWORD\<close>), the
  \<open>Trajectory\<close> that the array conversion makes of them for a unit;
  \<^item> \<open>out_lattice_vectors\<close>, \<open>cell\<close>: the same for the lattice vectors of the output and
  for the \<open>CELL\<close> section of the input (\<open>None\<close> inside: the section has neither \<open>A, B, C\<close>
  nor \<open>ABC\<close>); \<open>scale_row\<close>: a row of the cell file times a unit.
\<close>

datatype md_section = MolecularDynamics (md_step: "string option list option")

record ('f, 'l) run =
  maindir :: string
  inp :: "string \<rightharpoonup> string"
  settings_md :: "string \<rightharpoonup> string"
  single_point :: bool
  geometry_optimization :: bool
  molecular_dynamics :: "md_section option"
  step_start :: int
  file_exists :: "string \<Rightarrow> bool"
  logger_takes_data :: bool
  trajectory_file :: "string option \<Rightarrow> string \<Rightarrow> pyval \<Rightarrow> error + ('f list \<times> int list) option"
  data_file :: "string \<Rightarrow> real list list option"
  coord :: "(pyval \<Rightarrow> error + 'f) option"
  out_lattice_vectors :: "(pyval \<Rightarrow> error + 'l) option"
  cell :: "(pyval \<Rightarrow> error + 'l option) option"
  scale_row :: "real list \<Rightarrow> pyval \<Rightarrow> error + 'l"

text \<open>
  The attributes of an auxiliary parser (\<open>TrajParser\<close> or \<open>DataTextParser\<close>) that the
  correlator and the property \<open>trajectory\<close> set: \<open>mainfile\<close> (the path last assigned, \<open>None\<close>
  at first), \<open>units\<close>, \<open>_frequency\<close>, \<open>format\<close> and, for the energies, \<open>_step\<close>. A \<open>TrajParser\<close>
  starts with \<open>_frequency = 1\<close> and no format; the other parsers have \<open>_frequency\<close> once the
  correlator has set it. The four parsers are the state a lookup can change.
\<close>

record aux_parser =
  mainfile :: "string option"
  units :: pyval
  frequency :: int
  step :: "real list"
  format :: "string option"

record parsers =
  traj_parser :: aux_parser
  velocities_parser :: aux_parser
  cell_parser :: aux_parser
  energy_parser :: aux_parser

text \<open>
  The property \<open>mainfile\<close> of a parser, read: the path assigned, if the file is there.
\<close>

definition mainfile_property :: "('f, 'l) run \<Rightarrow> aux_parser \<Rightarrow> string option" where
  "mainfile_property r self =
     (case mainfile self of
        None \<Rightarrow> None
      | Some m \<Rightarrow> if file_exists r m then Some m else None)"

text \<open>The property \<open>data\<close> of a \<open>DataTextParser\<close>: \<open>None\<close> without a main file.\<close>

definition parser_data :: "('f, 'l) run \<Rightarrow> aux_parser \<Rightarrow> real list list option" where
  "parser_data r self =
     (case mainfile_property r self of None \<Rightarrow> None | Some m \<Rightarrow> data_file r m)"

text \<open>\<open>inp_parser.get(path, default)\<close>\<close>

definition inp_get :: "('f, 'l) run \<Rightarrow> string \<Rightarrow> string \<Rightarrow> string" where
  "inp_get r path dflt = dict_get (inp r) path dflt"

text \<open>\<open>_file_extension_map.get(traj_format, "xyz")\<close>\<close>

definition file_extension :: "string \<Rightarrow> string" where
  "file_extension traj_format =
     dict_get (map_of [(''XYZ'', ''xyz''), (''XMOL'', ''xyz''), (''ATOMIC'', ''xyz''),
                       (''PDB'', ''pdb''), (''DCD'', ''dcd'')]) traj_format ''xyz''"

text \<open>
  \<open>_normalize_filename\<close>; \<open>re.match(r"./", filename)\<close> holds when the second character
  is \<open>/\<close> and the first is not a newline. The result is \<open>None\<close> when the file name is empty
  and the input has no project name.
\<close>

definition normalize_filename :: "('f, 'l) run \<Rightarrow> string \<Rightarrow> string option" where
  "normalize_filename r filename =
     (if take 1 filename = ''='' then Some (drop 1 filename)
      else if take 1 (drop 1 filename) = ''/'' \<and> take 1 filename \<noteq> [CHR 0x0A] then Some filename
      else if filename \<noteq> []
           then Some (format_s (inp r ''GLOBAL/PROJECT_NAME'') @ ''-'' @ filename)
           else inp r ''GLOBAL/PROJECT_NAME'')"

text \<open>The property \<open>sampling_method\<close>: the last of the three sections that is there.\<close>

definition sampling_method :: "('f, 'l) run \<Rightarrow> string option" where
  "sampling_method r =
     (if molecular_dynamics r \<noteq> None then Some ''molecular_dynamics''
      else if geometry_optimization r then Some ''geometry_optimization''
      else if single_point r then Some ''single_point''
      else None)"

text \<open>
  \<open>get_ensemble_type\<close>: \<open>None\<close> outside molecular dynamics, the setting for frame 0, else
  the entry of step \<open>frame - 1\<close>.
\<close>

definition get_ensemble_type :: "('f, 'l) run \<Rightarrow> int \<Rightarrow> error + string option" where
  "get_ensemble_type r frame =
     (if sampling_method r \<noteq> Some ''molecular_dynamics'' then Inr None
      else if frame = 0 then Inr (Some (dict_get (settings_md r) ''ensemble_type'' ''''))
      else (case molecular_dynamics r of
              None \<Rightarrow> Inl AttributeError
            | Some md \<Rightarrow>
                (case md_step md of
                   None \<Rightarrow> Inl TypeError
                 | Some steps \<Rightarrow>
                     (case py_index steps (frame - 1) of
                        Inl e \<Rightarrow> Inl e
                      | Inr t \<Rightarrow> Inr (Some (case t of Some s \<Rightarrow> s | None \<Rightarrow> ''''))))))"

text \<open>
  \<open>frequency, filename = s.split()\<close> followed by \<open>frequency = int(frequency)\<close>: the unpacking
  raises \<open>ValueError\<close> unless there are exactly two words.
\<close>

definition frequency_and_filename :: "string \<Rightarrow> error + int \<times> string" where
  "frequency_and_filename s =
     (case py_split_ws s of
        [count, filename] \<Rightarrow>
          (case py_int count of Inl e \<Rightarrow> Inl e | Inr n \<Rightarrow> Inr (n, filename))
      | _ \<Rightarrow> Inl ValueError)"

subsection \<open>\<open>TrajParser\<close>\<close>

text \<open>
  The property \<open>trajectory\<close>. Its first access fixes the format, the lower-cased part of
  the main file after its last point; with no format yet and no main file there, that
  is \<open>None.split\<close> and raises \<open>AttributeError\<close>. The format stays when the main file is
  assigned anew. The property returns its result and leaves the parser with the format.
\<close>

definition TrajParser_trajectory ::
  "('f, 'l) run \<Rightarrow> aux_parser \<Rightarrow> (error + ('f list \<times> int list) option) \<times> aux_parser" where
  "TrajParser_trajectory r self =
     (case format self of
        Some f \<Rightarrow> (trajectory_file r (mainfile_property r self) f (units self), self)
      | None \<Rightarrow>
          (case mainfile_property r self of
             None \<Rightarrow> (Inl AttributeError, self)
           | Some m \<Rightarrow>
               (let f = lower (last (py_split m ''.''))
                in (trajectory_file r (Some m) f (units self), self\<lparr>format := Some f\<rparr>))))"

text \<open>
  \<open>TrajParser.get_trajectory\<close>. With a non-empty \<open>iter\<close> the frame is looked up by its
  recorded iteration, otherwise by position \<open>frame // _frequency\<close>. When the property
  returns \<open>None\<close> there is no \<open>iter\<close> either, and indexing \<open>None\<close> raises \<open>TypeError\<close>.
\<close>

definition TrajParser_get_trajectory ::
  "('f, 'l) run \<Rightarrow> aux_parser \<Rightarrow> int \<Rightarrow> (error + 'f) \<times> aux_parser" where
  "TrajParser_get_trajectory r self frame =
     (case TrajParser_trajectory r self of
        (Inl e, self1) \<Rightarrow> (Inl e, self1)
      | (Inr None, self1) \<Rightarrow>
          (if frequency self1 = 0 then Inl ZeroDivisionError else Inl TypeError, self1)
      | (Inr (Some (trajectory, iter)), self1) \<Rightarrow>
          (if iter \<noteq> []
           then (case list_index iter frame of
                   Inl e \<Rightarrow> Inl e
                 | Inr i \<Rightarrow> py_index trajectory (int i))
           else if frequency self1 = 0 then Inl ZeroDivisionError
           else py_index trajectory (frame div frequency self1),
           self1))"

subsection \<open>\<open>CP2KParser.get_velocities\<close>\<close>

text \<open>
  Every function of the correlator returns its result (or the exception) and the parsers
  as it leaves them. The first argument is the depth left for \<open>resolve_unit\<close>.
\<close>

definition configure_velocities ::
  "nat \<Rightarrow> ('f, 'l) run \<Rightarrow> parsers \<Rightarrow> (error + unit) \<times> parsers" where
  "configure_velocities d r st =
     (case frequency_and_filename (dict_get (settings_md r) ''velocities'' ''0 none'') of
        Inl e \<Rightarrow> (Inl e, st)
      | Inr (freq0, filename0) \<Rightarrow>
          (let filename = (if freq0 = 0
                           then format_s (inp r ''GLOBAL/PROJECT_NAME'') @ ''-vel-1.xyz''
                           else filename0);
               freq = (if freq0 = 0 then 1 else freq0);
               st1 = st\<lparr>velocities_parser :=
                        (velocities_parser st)\<lparr>mainfile := Some (path_join (maindir r) filename)\<rparr>\<rparr>
           in case resolve_unit d (inp_get r ''MOTION/PRINT/VELOCITIES/UNIT'' ''bohr*au_t^-1'') [] of
                Inl e \<Rightarrow> (Inl e, st1)
              | Inr u \<Rightarrow>
                  (Inr (), st1\<lparr>velocities_parser :=
                               (velocities_parser st1)\<lparr>units := u, frequency := freq\<rparr>\<rparr>)))"

text \<open>The \<open>except\<close> of \<open>get_velocities\<close> logs without the keyword \<open>data\<close>.\<close>

definition get_velocities ::
  "nat \<Rightarrow> ('f, 'l) run \<Rightarrow> parsers \<Rightarrow> int \<Rightarrow> (error + 'f option) \<times> parsers" where
  "get_velocities d r st frame =
     (if molecular_dynamics r \<noteq> None then (Inr None, st)
      else
       (case (if mainfile_property r (velocities_parser st) = None
              then configure_velocities d r st
              else (Inr (), st)) of
          (Inl e, st1) \<Rightarrow> (Inl e, st1)
        | (Inr _, st1) \<Rightarrow>
            (case get_ensemble_type r frame of
               Inl e \<Rightarrow> (Inl e, st1)
             | Inr None \<Rightarrow> (Inl AttributeError, st1)
             | Inr (Some t) \<Rightarrow>
                 (let frame1 = (if lower t = ''REFTRAJ'' then frame - 1 else frame)
                  in if frame1 < 0 then (Inr None, st1)
                     else (case TrajParser_get_trajectory r (velocities_parser st1) frame1 of
                             (Inl e, p) \<Rightarrow> (Inr None, st1\<lparr>velocities_parser := p\<rparr>)
                           | (Inr v, p) \<Rightarrow> (Inr (Some v), st1\<lparr>velocities_parser := p\<rparr>))))))"

subsection \<open>\<open>CP2KParser.get_trajectory\<close>\<close>

text \<open>
  The block for frame 0: the inline coordinates of the input, or else the first frame of
  the coordinate file, after which the main file of the trajectory parser is reset. The
  property \<open>trajectory\<close> is read outside any \<open>try\<close>.
\<close>

definition initial_trajectory ::
  "nat \<Rightarrow> ('f, 'l) run \<Rightarrow> parsers \<Rightarrow> (error + 'f option) \<times> parsers" where
  "initial_trajectory d r st =
     (case resolve_unit d (inp_get r ''FORCE_EVAL/SUBSYS/COORD/UNIT'' ''angstrom'') [] of
        Inl e \<Rightarrow> (Inl e, st)
      | Inr u \<Rightarrow>
          (case coord r of
             Some conversion \<Rightarrow>
               (case conversion u of Inl e \<Rightarrow> (Inl e, st) | Inr t \<Rightarrow> (Inr (Some t), st))
           | None \<Rightarrow>
               (let coord_filename = inp_get r ''FORCE_EVAL/SUBSYS/TOPOLOGY/COORD_FILE_NAME'' '''';
                    m = path_join (maindir r) (py_strip coord_filename)
                in case TrajParser_trajectory r ((traj_parser st)\<lparr>mainfile := Some m, units := u\<rparr>) of
                     (Inl e, p) \<Rightarrow> (Inl e, st\<lparr>traj_parser := p\<rparr>)
                   | (Inr (Some (t # ts, iter)), p) \<Rightarrow>
                       (Inr (Some t), st\<lparr>traj_parser := p\<lparr>mainfile := None\<rparr>\<rparr>)
                   | (Inr _, p) \<Rightarrow> (Inr None, st\<lparr>traj_parser := p\<rparr>))))"

definition configure_trajectory ::
  "nat \<Rightarrow> ('f, 'l) run \<Rightarrow> parsers \<Rightarrow> (error + unit) \<times> parsers" where
  "configure_trajectory d r st =
     (case frequency_and_filename (dict_get (settings_md r) ''coordinates'' ''0 none'') of
        Inl e \<Rightarrow> (Inl e, st)
      | Inr (freq0, filename0) \<Rightarrow>
          (let filename =
                 (if freq0 = 0
                  then format_s (normalize_filename r
                                   (py_strip (inp_get r ''MOTION/PRINT/TRAJECTORY/FILENAME'' '''')))
                       @ ''-pos-1.''
                       @ file_extension (py_strip (inp_get r ''MOTION/PRINT/TRAJECTORY/FORMAT'' ''XYZ''))
                  else filename0);
               freq = (if freq0 = 0 then 1 else freq0);
               st1 = st\<lparr>traj_parser :=
                        (traj_parser st)\<lparr>mainfile := Some (path_join (maindir r) filename)\<rparr>\<rparr>
           in case resolve_unit d (inp_get r ''MOTION/PRINT/TRAJECTORY/UNIT'' ''angstrom'') [] of
                Inl e \<Rightarrow> (Inl e, st1)
              | Inr u \<Rightarrow>
                  (Inr (), st1\<lparr>traj_parser :=
                               (traj_parser st1)\<lparr>units := u, frequency := freq\<rparr>\<rparr>)))"

text \<open>
  The \<open>except\<close> of \<open>get_trajectory\<close> calls \<open>self.logger.error\<close> with the keyword \<open>data\<close>:
  with a logger that does not take it, the call raises \<open>TypeError\<close> in place of the
  return of \<open>None\<close>.
\<close>

definition get_trajectory ::
  "nat \<Rightarrow> ('f, 'l) run \<Rightarrow> parsers \<Rightarrow> int \<Rightarrow> (error + 'f option) \<times> parsers" where
  "get_trajectory d r st frame =
     (case (if frame = 0 then initial_trajectory d r st else (Inr None, st)) of
        (Inl e, st1) \<Rightarrow> (Inl e, st1)
      | (Inr (Some t), st1) \<Rightarrow> (Inr (Some t), st1)
      | (Inr None, st1) \<Rightarrow>
          (case (if mainfile_property r (traj_parser st1) = None
                 then configure_trajectory d r st1
                 else (Inr (), st1)) of
             (Inl e, st2) \<Rightarrow> (Inl e, st2)
           | (Inr _, st2) \<Rightarrow>
               (case get_ensemble_type r frame of
                  Inl e \<Rightarrow> (Inl e, st2)
                | Inr t \<Rightarrow>
                    (let frame1 = (if t = Some ''REFTRAJ'' then frame - 1 else frame)
                     in if frame1 < 0 then (Inr None, st2)
                        else (case TrajParser_get_trajectory r (traj_parser st2) frame1 of
                                (Inl e, p) \<Rightarrow>
                                  (if logger_takes_data r then Inr None else Inl TypeError,
                                   st2\<lparr>traj_parser := p\<rparr>)
                              | (Inr v, p) \<Rightarrow> (Inr (Some v), st2\<lparr>traj_parser := p\<rparr>))))))"

subsection \<open>\<open>CP2KParser.get_lattice_vectors\<close>\<close>

text \<open>
  The block for frame 0. \<open>Inr (Some x)\<close>: the function returns \<open>x\<close> here (\<open>None\<close> when the
  output has no lattice vectors and the input has no \<open>CELL\<close> section); \<open>Inr None\<close>: it goes
  on to the cell file.
\<close>

definition initial_lattice_vectors :: "nat \<Rightarrow> ('f, 'l) run \<Rightarrow> error + 'l option option" where
  "initial_lattice_vectors d r =
     (case resolve_unit d (inp_get r ''FORCE_EVAL/SUBSYS/COORD/UNIT'' ''angstrom'') [] of
        Inl e \<Rightarrow> Inl e
      | Inr u \<Rightarrow>
          (case out_lattice_vectors r of
             Some conversion \<Rightarrow>
               (case conversion u of Inl e \<Rightarrow> Inl e | Inr l \<Rightarrow> Inr (Some (Some l)))
           | None \<Rightarrow>
               (case cell r of
                  None \<Rightarrow> Inr (Some None)
                | Some conversion \<Rightarrow>
                    (case conversion u of
                       Inl e \<Rightarrow> Inl e
                     | Inr None \<Rightarrow> Inr None
                     | Inr (Some l) \<Rightarrow> Inr (Some (Some l))))))"

text \<open>
  \<open>resolve_unit\<close> applied to an object: only a \<open>str\<close> has the method \<open>lower\<close>.
\<close>

definition resolve_unit_object :: "nat \<Rightarrow> pyval \<Rightarrow> error + pyval" where
  "resolve_unit_object d x =
     (case x of PStr s \<Rightarrow> resolve_unit d s [] | _ \<Rightarrow> Inl AttributeError)"

text \<open>
  The body of the final \<open>try\<close>: \<open>cell_parser.data[frame // _frequency] *
  resolve_unit(cell_parser.units)\<close>.
\<close>

definition cell_lookup :: "nat \<Rightarrow> ('f, 'l) run \<Rightarrow> aux_parser \<Rightarrow> int \<Rightarrow> error + 'l" where
  "cell_lookup d r self frame =
     (case parser_data r self of
        None \<Rightarrow> Inl TypeError
      | Some rows \<Rightarrow>
          (case py_index rows (frame div frequency self) of
             Inl e \<Rightarrow> Inl e
           | Inr row \<Rightarrow>
               (case resolve_unit_object d (units self) of
                  Inl e \<Rightarrow> Inl e
                | Inr u \<Rightarrow> scale_row r row u)))"

text \<open>
  \<open>get_lattice_vectors\<close> calls itself with frame 0 when no cell file is configured; the
  first argument bounds the depth of these calls and of \<open>resolve_unit\<close>. In the
  configuration block, \<open>Inl\<close> is what the function returns from inside the block and \<open>Inr\<close>
  the parsers with which it goes on. Its \<open>except\<close> logs without the keyword \<open>data\<close>.
\<close>

primrec get_lattice_vectors ::
  "nat \<Rightarrow> ('f, 'l) run \<Rightarrow> parsers \<Rightarrow> int \<Rightarrow> (error + 'l option) \<times> parsers" where
  "get_lattice_vectors 0 = (\<lambda>r st frame. (Inl RecursionError, st))"
| "get_lattice_vectors (Suc d) = (\<lambda>r st frame.
     case (if frame = 0 then initial_lattice_vectors d r else Inr None) of
       Inl e \<Rightarrow> (Inl e, st)
     | Inr (Some lattice_vectors) \<Rightarrow> (Inr lattice_vectors, st)
     | Inr None \<Rightarrow>
         (case (if mainfile_property r (cell_parser st) = None
                then (case frequency_and_filename
                             (dict_get (settings_md r) ''simulation_cell'' ''0 none'') of
                        Inl e \<Rightarrow> Inl (Inl e, st)
                      | Inr (freq0, filename0) \<Rightarrow>
                          (let filename = (if freq0 = 0
                                           then py_strip (inp_get r ''MOTION/PRINT/CELL/FILENAME'' '''')
                                           else filename0);
                               freq = (if freq0 = 0 then 1 else freq0)
                           in if filename \<noteq> []
                              then (let st1 = st\<lparr>cell_parser := (cell_parser st)
                                                 \<lparr>mainfile := Some (path_join (maindir r) filename)\<rparr>\<rparr>
                                    in case resolve_unit d
                                              (inp_get r ''MOTION/PRINT/TRAJECTORY/UNIT'' ''angstrom'') [] of
                                         Inl e \<Rightarrow> Inl (Inl e, st1)
                                       | Inr u \<Rightarrow>
                                           Inr (st1\<lparr>cell_parser := (cell_parser st1)
                                                      \<lparr>units := u, frequency := freq\<rparr>\<rparr>))
                              else (case (if sampling_method r = Some ''molecular_dynamics''
                                          then (case get_ensemble_type r frame of
                                                  Inl e \<Rightarrow> Inl e
                                                | Inr None \<Rightarrow> Inl TypeError
                                                | Inr (Some t) \<Rightarrow> Inr (take 3 t = ''NPT''))
                                          else Inr False) of
                                      Inl e \<Rightarrow> Inl (Inl e, st)
                                    | Inr True \<Rightarrow> Inl (Inr None, st)
                                    | Inr False \<Rightarrow> Inl (get_lattice_vectors d r st 0))))
                else Inr st) of
            Inl returned \<Rightarrow> returned
          | Inr st1 \<Rightarrow>
              (let frame1 = frame - (step_start r - 1)
               in case get_ensemble_type r frame1 of
                    Inl e \<Rightarrow> (Inl e, st1)
                  | Inr t \<Rightarrow>
                      (let frame2 = (if t = Some ''REFTRAJ'' then frame1 - 1 else frame1)
                       in if frequency (cell_parser st1) = 0 then (Inl ZeroDivisionError, st1)
                          else if frame2 mod frequency (cell_parser st1) \<noteq> 0 \<or> frame2 < 0
                          then (Inr None, st1)
                          else (case cell_lookup d r (cell_parser st1) frame2 of
                                  Inl e \<Rightarrow> (Inr None, st1)
                                | Inr l \<Rightarrow> (Inr (Some l), st1))))))"

subsection \<open>\<open>CP2KParser.get_md_output\<close>\<close>

text \<open>
  The result is a \<open>dict\<close>, here the list of its entries: key, number and the unit the
  number is multiplied with, if any. \<open>dict()\<close> is the empty list.
\<close>

type_synonym md_output = "(string \<times> real \<times> string option) list"

text \<open>The body of the \<open>try\<close>: the row whose first column is the frame, as a \<open>dict\<close>.\<close>

definition md_lookup :: "('f, 'l) run \<Rightarrow> aux_parser \<Rightarrow> int \<Rightarrow> error + md_output" where
  "md_lookup r self frame =
     (case list_index (step self) (of_int frame) of
        Inl e \<Rightarrow> Inl e
      | Inr i \<Rightarrow>
          (case parser_data r self of
             None \<Rightarrow> Inl TypeError
           | Some rows \<Rightarrow>
               (case py_index rows (int i) of
                  Inl e \<Rightarrow> Inl e
                | Inr (d0 # d1 # d2 # d3 # d4 # d5 # d6 # rest) \<Rightarrow>
                    Inr [(''step'', d0, None),
                         (''time'', d1, Some ''femtosecond''),
                         (''kinetic_energy_instantaneous'', d2, Some ''hartree''),
                         (''temperature_instantaneous'', d3, None),
                         (''potential_energy_instantaneous'', d4, Some ''hartree''),
                         (''conserved_quantity'', d5, Some ''hartree''),
                         (''cpu_time_instantaneous'', d6, None)]
                | Inr _ \<Rightarrow> Inl IndexError)))"

text \<open>The \<open>except\<close> of \<open>get_md_output\<close> logs without the keyword \<open>data\<close>.\<close>

definition get_md_output ::
  "('f, 'l) run \<Rightarrow> parsers \<Rightarrow> int \<Rightarrow> (error + md_output) \<times> parsers" where
  "get_md_output r st frame =
     (case (if mainfile_property r (energy_parser st) = None
            then (case frequency_and_filename (dict_get (settings_md r) ''energies'' ''0, none'') of
                    Inl e \<Rightarrow> Inl (Inl e, st)
                  | Inr (freq, filename) \<Rightarrow>
                      if freq = 0 then Inl (Inr [], st)
                      else (let m = path_join (maindir r) filename;
                                st1 = st\<lparr>energy_parser := (energy_parser st)
                                          \<lparr>mainfile := Some m, frequency := freq\<rparr>\<rparr>
                            in case (case parser_data r (energy_parser st1) of
                                       None \<Rightarrow> Inr []
                                     | Some rows \<Rightarrow> comprehension (\<lambda>d. py_index d 0) rows) of
                                 Inl e \<Rightarrow> Inl (Inl e, st1)
                               | Inr steps \<Rightarrow>
                                   Inr (st1\<lparr>energy_parser := (energy_parser st1)\<lparr>step := steps\<rparr>\<rparr>)))
            else Inr st) of
        Inl returned \<Rightarrow> returned
      | Inr st1 \<Rightarrow>
          if mainfile_property r (energy_parser st1) = None then (Inr [], st1)
          else (case get_ensemble_type r frame of
                  Inl e \<Rightarrow> (Inl e, st1)
                | Inr t \<Rightarrow>
                    (let frame1 = (if t = Some ''REFTRAJ'' then frame - 1 else frame)
                     in if frame1 < 0 then (Inr [], st1)
                        else (case md_lookup r (energy_parser st1) frame1 of
                                Inl e \<Rightarrow> (Inr [], st1)
                              | Inr out \<Rightarrow> (Inr out, st1)))))"

section \<open>The loop over the calculations: \<open>parse_calculations\<close>\<close>

text \<open>
  A calculation of the output is looked at for its entry \<open>step\<close> only. \<open>parse_system\<close> is
  called with a frame or, for frame 0, with the atomic coordinates of the output.
\<close>

datatype calculation = Calculation (calc_step: "int option")

datatype system_source = ByFrame int | AtomicCoordinates

text \<open>
  The methods the loop calls work on the archive and the parsers, a state \<open>'s\<close> that the
  loop passes on: \<open>parse_scc\<close> and \<open>parse_md_step\<close> for the frame, and \<open>parse_system\<close>,
  which returns the section of the system or \<open>None\<close>. \<open>logger_with_data\<close> says whether
  \<open>self.logger\<close> accepts the keyword \<open>data\<close>, which the logger of the standard library
  does not.
\<close>

record ('s, 'sys) methods =
  parse_scc :: "int \<Rightarrow> 's \<Rightarrow> 's"
  parse_md_step :: "int \<Rightarrow> 's \<Rightarrow> 's"
  parse_system :: "system_source \<Rightarrow> 's \<Rightarrow> 'sys option \<times> 's"
  logger_with_data :: bool

text \<open>What the loop does, in order: the calls it makes, its warning, and \<open>system_ref\<close> set.\<close>

datatype event =
    ParseScc int
  | ParseMdStep int
  | ParseSystem system_source
  | Warning int
  | SystemRef

text \<open>
  The body of the loop for a calculation that is not \<open>None\<close>, with its \<open>frame\<close>; \<open>is_last\<close>
  is \<open>n == len(calculations) - 1\<close> and \<open>md\<close> says whether the sampling method is molecular
  dynamics. \<open>system_ref\<close> is set when the section of the system is there. The result is
  the events, the exception that ends the loop (if any) and the state. The warning is
  logged with the keyword \<open>data\<close>: a logger that does not take it raises \<open>TypeError\<close>
  there, before the second call of \<open>parse_system\<close>.
\<close>

definition system_ref :: "'sys option \<Rightarrow> event list" where
  "system_ref sec_system = (if sec_system = None then [] else [SystemRef])"

definition parse_calculation ::
  "('s, 'sys) methods \<Rightarrow> bool \<Rightarrow> bool \<Rightarrow> int \<Rightarrow> 's \<Rightarrow> event list \<times> error option \<times> 's" where
  "parse_calculation self md is_last frame st =
     (let st1 = parse_scc self frame st;
          st2 = (if md then parse_md_step self frame st1 else st1);
          calls = ParseScc frame # (if md then [ParseMdStep frame] else [])
      in if frame = 0
         then (case parse_system self AtomicCoordinates st2 of
                 (sec_system, st3) \<Rightarrow>
                   (calls @ [ParseSystem AtomicCoordinates] @ system_ref sec_system, None, st3))
         else (case parse_system self (ByFrame frame) st2 of
                 (sec_system, st3) \<Rightarrow>
                   if sec_system = None \<and> is_last
                   then (if logger_with_data self
                         then (case parse_system self (ByFrame (frame + 1)) st3 of
                                 (sec_system1, st4) \<Rightarrow>
                                   (calls @ [ParseSystem (ByFrame frame), Warning frame,
                                             ParseSystem (ByFrame (frame + 1))]
                                      @ system_ref sec_system1,
                                    None, st4))
                         else (calls @ [ParseSystem (ByFrame frame)], Some TypeError, st3))
                   else (calls @ [ParseSystem (ByFrame frame)] @ system_ref sec_system,
                         None, st3)))"

text \<open>
  \<open>for n, calculation in enumerate(calculations)\<close>, from position \<open>n\<close> on; \<open>len\<close> is
  \<open>len(calculations)\<close>. A calculation that is \<open>None\<close> is skipped; the frame of another is
  \<open>calculation.get("step", n)\<close>. An exception ends the loop.
\<close>

fun parse_calculations_from ::
  "('s, 'sys) methods \<Rightarrow> bool \<Rightarrow> nat \<Rightarrow> nat \<Rightarrow> calculation option list \<Rightarrow> 's
     \<Rightarrow> event list \<times> error option \<times> 's" where
  "parse_calculations_from self md len n [] st = ([], None, st)"
| "parse_calculations_from self md len n (None # rest) st =
     parse_calculations_from self md len (Suc n) rest st"
| "parse_calculations_from self md len n (Some c # rest) st =
     (case parse_calculation self md (int n = int len - 1)
             (case calc_step c of Some k \<Rightarrow> k | None \<Rightarrow> int n) st of
        (events1, Some e, st1) \<Rightarrow> (events1, Some e, st1)
      | (events1, None, st1) \<Rightarrow>
          (case parse_calculations_from self md len (Suc n) rest st1 of
             (events2, err, st2) \<Rightarrow> (events1 @ events2, err, st2)))"

definition parse_calculations ::
  "('s, 'sys) methods \<Rightarrow> bool \<Rightarrow> calculation option list \<Rightarrow> 's
     \<Rightarrow> event list \<times> error option \<times> 's" where
  "parse_calculations self md calculations st =
     parse_calculations_from self md (length calculations) 0 calculations st"

section \<open>Runs used as examples\<close>

text \<open>The parsers as \<open>CP2KParser.__init__\<close> makes them: no main file, \<open>_frequency\<close> 1.\<close>

definition new_parser :: aux_parser where
  "new_parser = \<lparr>mainfile = None, units = PNone, frequency = 1, step = [], format = None\<rparr>"

definition new_parsers :: parsers where
  "new_parsers = \<lparr>traj_parser = new_parser, velocities_parser = new_parser,
                  cell_parser = new_parser, energy_parser = new_parser\<rparr>"

text \<open>
  A geometry optimisation of the project \<open>proj\<close> in \<open>/run\<close> whose settings print every kind
  of auxiliary data with frequency 0, and whose trajectory file holds the frames of the
  iterations 0, 2 and 4. Frames are named by strings. The files of the positions, the
  velocities, the cell and the energies are there, and the logger takes the keyword
  \<open>data\<close>.
\<close>

definition example_run :: "(string, string) run" where
  "example_run =
     \<lparr>maindir = ''/run'',
      inp = [''GLOBAL/PROJECT_NAME'' \<mapsto> ''proj'',
             ''MOTION/PRINT/CELL/FILENAME'' \<mapsto> ''proj-1.cell''],
      settings_md = [''coordinates'' \<mapsto> ''0 none'', ''velocities'' \<mapsto> ''0 none'',
                     ''simulation_cell'' \<mapsto> ''0 none'', ''energies'' \<mapsto> ''0 none''],
      single_point = True,
      geometry_optimization = True,
      molecular_dynamics = None,
      step_start = 1,
      file_exists = (\<lambda>m. m \<in> set [''/run/proj-pos-1.xyz'', ''/run/proj-pos-2.dcd'',
                                   ''/run/proj-vel-1.xyz'', ''/run/proj-1.cell'',
                                   ''/run/proj-1.ener'']),
      logger_takes_data = True,
      trajectory_file = (\<lambda>m f u. if m = Some ''/run/proj-pos-1.xyz''
                                  then Inr (Some ([''frame 0'', ''frame 2'', ''frame 4''], [0, 2, 4]))
                                  else Inr None),
      data_file = (\<lambda>m. None),
      coord = None,
      out_lattice_vectors = None,
      cell = None,
      scale_row = (\<lambda>row u. Inl TypeError)\<rparr>"


text \<open>
  A run whose trajectory file has no recorded iterations and is written every second
  step, and its configured parsers.
\<close>

definition stride_run :: "(string, string) run" where
  "stride_run =
     example_run\<lparr>trajectory_file :=
       (\<lambda>m f u. if m = Some ''/run/proj-pos-2.dcd''
                 then Inr (Some ([''frame 0'', ''frame 2'', ''frame 4''], []))
                 else Inr None)\<rparr>"

definition stride_parsers :: parsers where
  "stride_parsers =
     new_parsers\<lparr>traj_parser :=
       \<lparr>mainfile = Some ''/run/proj-pos-2.dcd'', units = PUnit ''angstrom'',
        frequency = 2, step = [], format = Some ''dcd''\<rparr>\<rparr>"


text \<open>
  A molecular-dynamics run that replays a trajectory (ensemble \<open>REFTRAJ\<close>) with positions
  and velocities written at every step, and its configured parsers.
\<close>

definition reftraj_run :: "(string, string) run" where
  "reftraj_run =
     example_run
       \<lparr>settings_md := [''ensemble_type'' \<mapsto> ''REFTRAJ''],
        molecular_dynamics := Some (MolecularDynamics (Some [Some ''REFTRAJ'', Some ''REFTRAJ''])),
        trajectory_file :=
          (\<lambda>m f u. if m = Some ''/run/proj-pos-1.xyz''
                    then Inr (Some ([''position 0'', ''position 1'', ''position 2''], []))
                    else if m = Some ''/run/proj-vel-1.xyz''
                    then Inr (Some ([''velocity 0'', ''velocity 1'', ''velocity 2''], []))
                    else Inr None)\<rparr>"

definition reftraj_parsers :: parsers where
  "reftraj_parsers =
     new_parsers
       \<lparr>traj_parser :=
          \<lparr>mainfile = Some ''/run/proj-pos-1.xyz'', units = PUnit ''angstrom'',
           frequency = 1, step = [], format = Some ''xyz''\<rparr>,
        velocities_parser :=
          \<lparr>mainfile = Some ''/run/proj-vel-1.xyz'', units = PUnit ''angstrom'',
           frequency = 1, step = [], format = Some ''xyz''\<rparr>\<rparr>"

text \<open>
  The parsers of the first run with all four files configured; the cell file is written
  every second step.
\<close>

definition configured_parsers :: parsers where
  "configured_parsers =
     \<lparr>traj_parser =
        \<lparr>mainfile = Some ''/run/proj-pos-1.xyz'', units = PUnit ''angstrom'',
         frequency = 1, step = [], format = Some ''xyz''\<rparr>,
      velocities_parser =
        \<lparr>mainfile = Some ''/run/proj-vel-1.xyz'', units = PUnit ''angstrom'',
         frequency = 1, step = [], format = Some ''xyz''\<rparr>,
      cell_parser =
        \<lparr>mainfile = Some ''/run/proj-1.cell'', units = PUnit ''angstrom'',
         frequency = 2, step = [], format = None\<rparr>,
      energy_parser =
        \<lparr>mainfile = Some ''/run/proj-1.ener'', units = PNone, frequency = 1, step = [],
         format = None\<rparr>\<rparr>"

text \<open>
  Methods for the loop over the calculations whose state counts the calls of
  \<open>parse_system\<close>: the initial system and the system of frame 3 are there, the systems
  of the other frames are missing. The logger takes the keyword \<open>data\<close>.
\<close>

definition example_methods :: "(nat, string) methods" where
  "example_methods =
     \<lparr>parse_scc = (\<lambda>frame st. st),
      parse_md_step = (\<lambda>frame st. st),
      parse_system = (\<lambda>source st.
        (case source of
           AtomicCoordinates \<Rightarrow> Some ''initial system''
         | ByFrame k \<Rightarrow> if k = 3 then Some ''system 3'' else None,
         Suc st)),
      logger_with_data = True\<rparr>"

section \<open>Properties of the unit resolver\<close>

subsection \<open>Facts about the string operations\<close>

lemma py_split_no_sep:
  "sep \<noteq> [] \<Longrightarrow> hd sep \<notin> set s \<Longrightarrow> py_split s sep = [s]"
proof (induction s)
  case Nil
  then show ?case by simp
next
  case (Cons c cs)
  have "take (length sep) (c # cs) \<noteq> sep"
  proof
    assume h: "take (length sep) (c # cs) = sep"
    from Cons.prems(1) obtain x xs where "sep = x # xs" by (cases sep) auto
    with h have "x = c" by simp
    with \<open>sep = x # xs\<close> Cons.prems(2) show False by simp
  qed
  moreover have "py_split cs sep = [cs]" using Cons by simp
  ultimately show ?case by simp
qed

lemma py_rfind_absent: "c \<notin> set s \<Longrightarrow> py_rfind s c = - 1"
  by (simp add: py_rfind_def)

lemma py_rfind_present: "c \<in> set s \<Longrightarrow> py_rfind s c > - 1"
  by (simp add: py_rfind_def)

lemma match_placeholder_no_bracket: "CHR ''['' \<notin> set s \<Longrightarrow> match_placeholder s = None"
  by (cases s) (auto simp: match_placeholder_def)

lemma dropWhile_neq_Nil: "dropWhile (\<lambda>x. x \<noteq> c) s \<noteq> [] \<longleftrightarrow> c \<in> set s"
  by (induction s) auto

lemma dropWhile_neq_split:
  "dropWhile (\<lambda>x. x \<noteq> c) s \<noteq> [] \<Longrightarrow>
   dropWhile (\<lambda>x. x \<noteq> c) s = c # tl (dropWhile (\<lambda>x. x \<noteq> c) s)"
  using hd_dropWhile[of "\<lambda>x. x \<noteq> c" s] by (cases "dropWhile (\<lambda>x. x \<noteq> c) s") auto

lemma digitpart_chars: "digitpart s \<Longrightarrow> c \<in> set s \<Longrightarrow> is_digit c \<or> c = CHR ''_''"
  by (induction s rule: digitpart.induct) (auto split: if_splits)

lemma drop_sign_chars: "c \<in> set s \<Longrightarrow> c \<noteq> CHR ''+'' \<Longrightarrow> c \<noteq> CHR ''-'' \<Longrightarrow> c \<in> set (drop_sign s)"
  by (cases s) (auto simp: drop_sign_def)

lemma drop_sign_subset: "c \<in> set (drop_sign s) \<Longrightarrow> c \<in> set s"
  by (cases s) (auto simp: drop_sign_def split: if_splits)

lemma pointnumber_chars:
  assumes "pointnumber m" "c \<in> set m"
  shows "is_digit c \<or> c = CHR ''_'' \<or> c = CHR ''.''"
proof (cases "CHR ''.'' \<in> set m")
  case False
  with assms show ?thesis by (auto simp: pointnumber_def dest: digitpart_chars)
next
  case True
  let ?a = "takeWhile (\<lambda>c. c \<noteq> CHR ''.'') m"
  let ?r = "dropWhile (\<lambda>c. c \<noteq> CHR ''.'') m"
  have "?r \<noteq> []" using True by (simp add: dropWhile_neq_Nil)
  then have "?r = CHR ''.'' # tl ?r" by (rule dropWhile_neq_split)
  then have m: "m = ?a @ CHR ''.'' # tl ?r"
    by (metis takeWhile_dropWhile_id)
  from assms(1) True have ab: "(?a = [] \<or> digitpart ?a) \<and> (tl ?r = [] \<or> digitpart (tl ?r))"
    by (auto simp: pointnumber_def Let_def)
  from assms(2) m have "c \<in> set ?a \<or> c = CHR ''.'' \<or> c \<in> set (tl ?r)"
    by (metis Un_iff set_ConsD set_append)
  with ab show ?thesis by (auto dest: digitpart_chars)
qed

lemma floatnumber_chars:
  assumes "floatnumber t" "c \<in> set t"
  shows "is_digit c \<or> c \<in> set ''_.e+-''"
proof -
  let ?m = "takeWhile (\<lambda>c. c \<noteq> CHR ''e'') t"
  let ?r = "dropWhile (\<lambda>c. c \<noteq> CHR ''e'') t"
  from assms(1) have pm: "pointnumber ?m" and pr: "?r = [] \<or> digitpart (drop_sign (tl ?r))"
    by (auto simp: floatnumber_def Let_def)
  have "t = ?m @ ?r" by simp
  with assms(2) have "c \<in> set ?m \<or> c \<in> set ?r" by (metis Un_iff set_append)
  then show ?thesis
  proof
    assume "c \<in> set ?m"
    with pm show ?thesis by (auto dest: pointnumber_chars)
  next
    assume cr: "c \<in> set ?r"
    then have ne: "?r \<noteq> []" by (cases ?r) auto
    then have "?r = CHR ''e'' # tl ?r" by (rule dropWhile_neq_split)
    with cr have "c = CHR ''e'' \<or> c \<in> set (tl ?r)" by (metis set_ConsD)
    moreover from pr ne have "digitpart (drop_sign (tl ?r))" by blast
    ultimately show ?thesis
      using drop_sign_chars[of c "tl ?r"] digitpart_chars[of "drop_sign (tl ?r)" c] by auto
  qed
qed

lemma lower_char_paren: "lower_char c = CHR ''('' \<longleftrightarrow> c = CHR ''(''"
  by (auto simp: lower_char_def split: option.splits if_splits)

lemma number_strip_keeps:
  "c \<in> set s \<Longrightarrow> \<not> is_number_space c \<Longrightarrow> c \<in> set (number_strip s)"
proof -
  have k: "\<And>xs. c \<in> set xs \<Longrightarrow> \<not> is_number_space c \<Longrightarrow> c \<in> set (dropWhile is_number_space xs)"
    by (metis (full_types) Un_iff set_append set_takeWhileD takeWhile_dropWhile_id)
  assume "c \<in> set s" "\<not> is_number_space c"
  then show ?thesis unfolding number_strip_def
    using k[of "rev (dropWhile is_number_space s)"] k[of s] by simp
qed

lemma is_float_no_paren: "is_float u \<Longrightarrow> CHR ''('' \<notin> set u"
proof
  assume f: "is_float u" and p: "CHR ''('' \<in> set u"
  let ?t = "drop_sign (lower (number_strip u))"
  from p have "CHR ''('' \<in> set (number_strip u)"
    by (simp add: number_strip_keeps is_number_space_def)
  moreover have "lower_char (CHR ''('') = CHR ''(''" by (simp add: lower_char_paren)
  ultimately have "CHR ''('' \<in> set (lower (number_strip u))"
    unfolding lower_def by (metis image_eqI set_map)
  then have t: "CHR ''('' \<in> set ?t" by (simp add: drop_sign_chars)
  from f have "?t \<in> set [''inf'', ''infinity'', ''nan''] \<or> floatnumber ?t"
    by (simp add: is_float_def Let_def)
  then show False
  proof
    assume "?t \<in> set [''inf'', ''infinity'', ''nan'']"
    with t show False by auto
  next
    assume "floatnumber ?t"
    from floatnumber_chars[OF this t] show False by (simp add: is_digit_def)
  qed
qed

lemma units_map_no_paren: "units_map u = Some v \<Longrightarrow> CHR ''('' \<notin> set u"
  by (auto simp: units_map_def split: if_splits)

lemma resolve_unit_token:
  assumes "units_map (normalized s) = None" "\<not> is_float (normalized s)"
    "normalized s \<noteq> []" "set (normalized s) \<inter> set ''(/*^-['' = {}"
  shows "resolve_unit (Suc d) s parts = Inr PNone"
proof -
  let ?u = "normalized s"
  from assms(4) have c: "CHR ''('' \<notin> set ?u" "CHR ''/'' \<notin> set ?u" "CHR ''*'' \<notin> set ?u"
    "CHR ''^'' \<notin> set ?u" "CHR ''-'' \<notin> set ?u" "CHR ''['' \<notin> set ?u"
    by auto
  have sp: "py_split ?u ''/'' = [?u]" "py_split ?u ''**'' = [?u]" "py_split ?u ''^'' = [?u]"
    "py_split ?u ''*'' = [?u]" "py_split ?u ''-1'' = [?u]"
    using c by (simp_all add: py_split_no_sep)
  show ?thesis
    using assms(1-3) c(1) c(6)
    by (simp add: sp py_rfind_absent match_placeholder_no_bracket del: py_split.simps)
qed

lemma resolve_unit_unbalanced:
  assumes "CHR ''('' \<in> set (normalized s)"
    "py_count (normalized s) (CHR ''('') \<noteq> py_count (normalized s) (CHR '')'')"
  shows "resolve_unit (Suc d) s parts = Inr (PStr (normalized s))"
proof -
  let ?u = "normalized s"
  have "units_map ?u = None" using assms(1) units_map_no_paren by (cases "units_map ?u") auto
  moreover have "\<not> is_float ?u" using assms(1) is_float_no_paren by blast
  moreover have "?u \<noteq> []" using assms(1) by auto
  moreover have "py_rfind ?u (CHR ''('') > - 1" using assms(1) by (rule py_rfind_present)
  ultimately show ?thesis using assms(2) by simp
qed

lemma lower_char_neq_K: "lower_char c \<noteq> CHR ''K''"
  by (auto simp: lower_char_def split: option.splits if_splits)

lemma normalized_neq_K: "normalized s \<noteq> ''K''"
proof
  assume "normalized s = ''K''"
  then have "CHR ''K'' \<in> set (normalized s)" by simp
  then obtain c where "lower_char c = CHR ''K''" by (auto simp: normalized_def lower_def)
  then show False by (simp add: lower_char_neq_K)
qed

lemma units_map_kelvin: "units_map u = Some (PUnit ''kelvin'') \<Longrightarrow> u = ''K''"
  by (simp add: units_map_def split: if_splits)

lemma exponent_loop_order:
  "accumulate Pow a (rev [b, c]) =
     (case py_binop Pow a c of Inl e \<Rightarrow> Inl e | Inr x \<Rightarrow> py_binop Pow x b)"
  by (simp split: sum.splits)

subsection \<open>Degraded values and exceptions\<close>

text \<open>
  C1, as the code has it. \<open>resolve_unit\<close> returns without raising in two cases.
  A single token returns \<open>None\<close>: a string that, lower-cased and with its spaces removed,
  is not a key of \<open>units_map\<close>, is not accepted by \<open>float()\<close>, is not empty and has none
  of the characters \<open>( / * ^ - [\<close>. A string that contains \<open>(\<close> and whose counts of \<open>(\<close> and
  \<open>)\<close> differ returns the lower-cased, space-free string. Both hold for any list of parts
  and whenever one call is still allowed. (An unknown token under an operator is not
  covered: see the counterexample.)
\<close>

theorem resolve_unit_degraded_values:
  "(units_map (normalized s) = None \<and> \<not> is_float (normalized s) \<and> normalized s \<noteq> [] \<and>
    set (normalized s) \<inter> set ''(/*^-['' = {}
      \<longrightarrow> resolve_unit (Suc d) s parts = Inr PNone) \<and>
   (CHR ''('' \<in> set (normalized s) \<and>
    py_count (normalized s) (CHR ''('') \<noteq> py_count (normalized s) (CHR '')'')
      \<longrightarrow> resolve_unit (Suc d) s parts = Inr (PStr (normalized s)))"
  using resolve_unit_token resolve_unit_unbalanced by blast

text \<open>
  C1, witness: the unknown token \<open>UnknownUnit xyz\<close> resolves to \<open>None\<close>, and
  \<open>Hartree/(Bohr\<close>, with one \<open>(\<close> and no \<open>)\<close>, comes back lower-cased.
\<close>

theorem resolve_unit_degraded_values_witness:
  "resolve_unit 1 ''UnknownUnit xyz'' [] = Inr PNone \<and>
   resolve_unit 1 ''Hartree/(Bohr'' [] = Inr (PStr ''hartree/(bohr'')"
proof -
  have n1: "normalized ''UnknownUnit xyz'' = ''unknownunitxyz''" by code_simp
  have n2: "normalized ''Hartree/(Bohr'' = ''hartree/(bohr''" by code_simp
  have h1: "units_map ''unknownunitxyz'' = None \<and> \<not> is_float ''unknownunitxyz'' \<and>
      ''unknownunitxyz'' \<noteq> [] \<and> set ''unknownunitxyz'' \<inter> set ''(/*^-['' = {}"
    by code_simp
  have h2: "CHR ''('' \<in> set ''hartree/(bohr'' \<and>
      py_count ''hartree/(bohr'' (CHR ''('') \<noteq> py_count ''hartree/(bohr'' (CHR '')'')"
    by code_simp
  from resolve_unit_degraded_values[of "''UnknownUnit xyz''" 0 "[]"] h1 n1
  have "resolve_unit 1 ''UnknownUnit xyz'' [] = Inr PNone" by simp
  moreover from resolve_unit_degraded_values[of "''Hartree/(Bohr''" 0 "[]"] h2 n2
  have "resolve_unit 1 ''Hartree/(Bohr'' [] = Inr (PStr ''hartree/(bohr'')" by simp
  ultimately show ?thesis by simp
qed

text \<open>
  C1, counterexample to "never raises": in \<open>a*b\<close> both operands are unknown tokens and
  resolve to \<open>None\<close>; the product loop starts from the \<open>int\<close> 1 and \<open>1 * None\<close> raises
  \<open>TypeError\<close>, which \<open>resolve_unit\<close> does not catch.
\<close>

theorem resolve_unit_raises_counterexample:
  "resolve_unit 1000 ''a*b'' [] = Inl TypeError"
  by code_simp

subsection \<open>Chains of exponents\<close>

text \<open>
  C2: on \<open>2**3**2\<close> (and on \<open>2^3^2\<close>) the code starts from the first operand and raises it
  to the remaining operands taken from the right: it computes \<open>(2.0 ** 2.0) ** 3.0\<close>, which
  is 64.0, where the right-associative reading \<open>2.0 ** (3.0 ** 2.0)\<close> is 512.0.
\<close>

theorem resolve_unit_exponent_chain:
  "resolve_unit (Suc (Suc d)) ''2**3**2'' [] =
     Inr (PBin Pow (PBin Pow (PFloat ''2'') (PFloat ''2'')) (PFloat ''3'')) \<and>
   resolve_unit (Suc (Suc d)) ''2^3^2'' [] =
     Inr (PBin Pow (PBin Pow (PFloat ''2'') (PFloat ''2'')) (PFloat ''3''))"
  by code_simp

subsection \<open>The default unit of velocities\<close>

text \<open>
  C3: \<open>bohr\<close> is not a key of \<open>units_map\<close> and resolves to \<open>None\<close>; \<open>au_t\<close> resolves to
  \<open>hbar / hartree\<close>; and \<open>bohr*au_t^-1\<close> is split at \<open>^\<close> before \<open>*\<close>, so its first operand
  is \<open>bohr*au_t\<close>, whose product \<open>1 * None\<close> raises \<open>TypeError\<close>.
\<close>

theorem resolve_unit_default_velocity_unit:
  "resolve_unit (Suc d) ''bohr'' [] = Inr PNone \<and>
   resolve_unit (Suc d) ''au_t'' [] = Inr (PBin TrueDiv (PUnit ''hbar'') (PUnit ''hartree'')) \<and>
   resolve_unit (Suc (Suc (Suc d))) ''bohr*au_t^-1'' [] = Inl TypeError"
  by code_simp

subsection \<open>The entry \<open>K\<close> of the table\<close>

text \<open>
  C9: the lookup lower-cases its argument, and the key of kelvin is the capital \<open>K\<close>:
  \<open>resolve_unit\<close> on \<open>K\<close> looks up \<open>k\<close>, finds nothing and returns \<open>None\<close>, and no string at
  all reaches the kelvin entry of \<open>units_map\<close>.
\<close>

theorem resolve_unit_kelvin_unreachable:
  "resolve_unit (Suc d) ''K'' parts = Inr PNone \<and>
   units_map (normalized s) \<noteq> Some (PUnit ''kelvin'')"
proof
  show "resolve_unit (Suc d) ''K'' parts = Inr PNone" by code_simp
  show "units_map (normalized s) \<noteq> Some (PUnit ''kelvin'')"
    using units_map_kelvin normalized_neq_K by blast
qed

section \<open>Properties of \<open>InpValue.add\<close>\<close>

lemma add_absent: "data self key = None \<Longrightarrow> data (add key v self) key = Some v"
  by (simp add: add_def)

lemma add_present:
  "data self key = Some old \<Longrightarrow> data (add key v self) key = Some (ItemList (as_list old @ [v]))"
  by (simp add: add_def)

lemma add_other_key: "k \<noteq> key \<Longrightarrow> data (add key v self) k = data self k"
  by (simp add: add_def split: option.splits)

lemma add_many_list:
  "data self key = Some (ItemList xs) \<Longrightarrow>
   data (foldl (\<lambda>s v. add key v s) self vs) key = Some (ItemList (xs @ vs))"
proof (induction vs arbitrary: self xs)
  case Nil
  then show ?case by simp
next
  case (Cons v vs)
  have "data (add key v self) key = Some (ItemList (xs @ [v]))"
    using Cons.prems by (simp add: add_present)
  from Cons.IH[OF this] show ?case by simp
qed

lemma add_many_other_key:
  "k \<noteq> key \<Longrightarrow> data (foldl (\<lambda>s v. add key v s) self vs) k = data self k"
  by (induction vs arbitrary: self) (simp_all add: add_other_key)

text \<open>
  C10: when the key is not yet in \<open>_data\<close>, \<open>add\<close> stores the value itself; an \<open>add\<close> under a key
  that holds \<open>old\<close> stores the list of \<open>old\<close> (made a one-element list unless it is a list
  already) followed by the new value; so the values \<open>x, y, ys\<close> added in this order under one
  new key (values that are not lists themselves, as the strings and sections of the input
  parser) end as the list \<open>[x, y] + ys\<close>, every value kept and in the order of the calls; and
  no other key changes.
\<close>

theorem add_accumulates_in_order:
  "data self key = None \<Longrightarrow>
     data (add key v self) key = Some v \<and>
     data (add key w (add key v self)) key = Some (ItemList (as_list v @ [w])) \<and>
     data (foldl (\<lambda>s v. add key v s) self (map Item (x # y # ys))) key
       = Some (ItemList (map Item (x # y # ys))) \<and>
     (k \<noteq> key \<longrightarrow> data (foldl (\<lambda>s v. add key v s) self (map Item (x # y # ys))) k = data self k)"
proof (intro conjI impI)
  assume a: "data self key = None"
  show "data (add key v self) key = Some v" using a by (rule add_absent)
  then show "data (add key w (add key v self)) key = Some (ItemList (as_list v @ [w]))"
    by (rule add_present)
  have "data (add key (Item y) (add key (Item x) self)) key = Some (ItemList [Item x, Item y])"
    using a by (simp add: add_absent add_present)
  from add_many_list[OF this, of "map Item ys"]
  show "data (foldl (\<lambda>s v. add key v s) self (map Item (x # y # ys))) key
       = Some (ItemList (map Item (x # y # ys)))"
    by simp
next
  assume "k \<noteq> key"
  then show "data (foldl (\<lambda>s v. add key v s) self (map Item (x # y # ys))) k = data self k"
    by (rule add_many_other_key)
qed

text \<open>
  C10, witness: in an empty section named \<open>KIND\<close>, three \<open>add\<close>s under \<open>BASIS_SET\<close> give the
  list of the three values in the order of the calls, and the key \<open>POTENTIAL\<close> stays absent.
\<close>

theorem add_accumulates_in_order_witness:
  "data (add ''BASIS_SET'' (Item ''a'') \<lparr>name = ''KIND'', data = Map.empty, dict_cache = None\<rparr>)
     ''BASIS_SET'' = Some (Item ''a'') \<and>
   data (foldl (\<lambda>s v. add ''BASIS_SET'' v s)
          \<lparr>name = ''KIND'', data = Map.empty, dict_cache = None\<rparr>
          [Item ''a'', Item ''b'', Item ''c'']) ''BASIS_SET''
     = Some (ItemList [Item ''a'', Item ''b'', Item ''c'']) \<and>
   data (foldl (\<lambda>s v. add ''BASIS_SET'' v s)
          \<lparr>name = ''KIND'', data = Map.empty, dict_cache = None\<rparr>
          [Item ''a'', Item ''b'', Item ''c'']) ''POTENTIAL'' = None"
  using add_accumulates_in_order
    [of "\<lparr>name = ''KIND'', data = Map.empty, dict_cache = None\<rparr>" "''BASIS_SET''"
        "Item ''a''" "Item ''b''" "''a''" "''b''" "[''c'']" "''POTENTIAL''"]
  by simp

section \<open>Properties of the frame correlator\<close>

subsection \<open>Lookups with a configured parser\<close>


lemma TrajParser_trajectory_fields:
  "mainfile (snd (TrajParser_trajectory r p)) = mainfile p \<and>
   units (snd (TrajParser_trajectory r p)) = units p \<and>
   frequency (snd (TrajParser_trajectory r p)) = frequency p \<and>
   step (snd (TrajParser_trajectory r p)) = step p"
  by (simp add: TrajParser_trajectory_def Let_def split: option.splits)

lemma TrajParser_get_trajectory_fields:
  "mainfile (snd (TrajParser_get_trajectory r p frame)) = mainfile p \<and>
   units (snd (TrajParser_get_trajectory r p frame)) = units p \<and>
   frequency (snd (TrajParser_get_trajectory r p frame)) = frequency p \<and>
   step (snd (TrajParser_get_trajectory r p frame)) = step p"
proof -
  obtain x q where t: "TrajParser_trajectory r p = (x, q)"
    by (cases "TrajParser_trajectory r p")
  with TrajParser_trajectory_fields[of r p]
  have "mainfile q = mainfile p \<and> units q = units p \<and> frequency q = frequency p
    \<and> step q = step p" by simp
  then show ?thesis
    by (simp add: TrajParser_get_trajectory_def t split: sum.splits option.splits prod.splits)
qed






subsection \<open>Selection of the record\<close>


subsection \<open>Configuration of a parser without a main file\<close>

lemma configure_trajectory_zero:
  assumes "frequency_and_filename (dict_get (settings_md r) ''coordinates'' ''0 none'') = Inr (0, fname)"
    and "resolve_unit d (inp_get r ''MOTION/PRINT/TRAJECTORY/UNIT'' ''angstrom'') [] = Inr u"
  shows "configure_trajectory d r st =
    (Inr (), st\<lparr>traj_parser := (traj_parser st)
       \<lparr>mainfile := Some (path_join (maindir r)
          (format_s (normalize_filename r
                       (py_strip (inp_get r ''MOTION/PRINT/TRAJECTORY/FILENAME'' '''')))
           @ ''-pos-1.''
           @ file_extension (py_strip (inp_get r ''MOTION/PRINT/TRAJECTORY/FORMAT'' ''XYZ'')))),
        units := u, frequency := 1\<rparr>\<rparr>)"
  using assms by (simp add: configure_trajectory_def Let_def)

lemma get_trajectory_tail_fields:
  assumes "frame \<noteq> 0"
    and "(if mainfile_property r (traj_parser st) = None then configure_trajectory d r st
          else (Inr (), st)) = (Inr (), st2)"
  shows "mainfile (traj_parser (snd (get_trajectory d r st frame))) = mainfile (traj_parser st2) \<and>
         units (traj_parser (snd (get_trajectory d r st frame))) = units (traj_parser st2) \<and>
         frequency (traj_parser (snd (get_trajectory d r st frame))) = frequency (traj_parser st2)"
proof (cases "get_ensemble_type r frame")
  case (Inl e)
  then show ?thesis using assms by (simp add: get_trajectory_def)
next
  case (Inr t)
  let ?frame1 = "if t = Some ''REFTRAJ'' then frame - 1 else frame"
  obtain x q where l: "TrajParser_get_trajectory r (traj_parser st2) ?frame1 = (x, q)"
    by (cases "TrajParser_get_trajectory r (traj_parser st2) ?frame1")
  with TrajParser_get_trajectory_fields[of r "traj_parser st2" ?frame1]
  have q: "mainfile q = mainfile (traj_parser st2)" "units q = units (traj_parser st2)"
    "frequency q = frequency (traj_parser st2)"
    by simp_all
  show ?thesis
  proof (cases "?frame1 < 0")
    case True
    then show ?thesis using assms Inr by (simp add: get_trajectory_def Let_def)
  next
    case False
    then show ?thesis using assms Inr l q
      by (cases x) (simp_all add: get_trajectory_def Let_def)
  qed
qed

lemma get_trajectory_zero_frequency:
  assumes "frame \<noteq> 0" "mainfile_property r (traj_parser st) = None"
    and "frequency_and_filename (dict_get (settings_md r) ''coordinates'' ''0 none'') = Inr (0, fname)"
    and "resolve_unit d (inp_get r ''MOTION/PRINT/TRAJECTORY/UNIT'' ''angstrom'') [] = Inr u"
    and "path = path_join (maindir r)
          (format_s (normalize_filename r
                       (py_strip (inp_get r ''MOTION/PRINT/TRAJECTORY/FILENAME'' '''')))
           @ ''-pos-1.''
           @ file_extension (py_strip (inp_get r ''MOTION/PRINT/TRAJECTORY/FORMAT'' ''XYZ'')))"
  shows "mainfile (traj_parser (snd (get_trajectory d r st frame))) = Some path \<and>
         units (traj_parser (snd (get_trajectory d r st frame))) = u \<and>
         frequency (traj_parser (snd (get_trajectory d r st frame))) = 1 \<and>
         get_trajectory d r st frame =
         get_trajectory d r
           (st\<lparr>traj_parser := (traj_parser st)\<lparr>mainfile := Some path, units := u, frequency := 1\<rparr>\<rparr>)
           frame"
proof -
  let ?st2 = "st\<lparr>traj_parser := (traj_parser st)\<lparr>mainfile := Some path, units := u, frequency := 1\<rparr>\<rparr>"
  have c: "configure_trajectory d r st = (Inr (), ?st2)"
    using configure_trajectory_zero[OF assms(3,4), of st] assms(5) by simp
  have c2: "configure_trajectory d r ?st2 = (Inr (), ?st2)"
    using configure_trajectory_zero[OF assms(3,4), of ?st2] assms(5) by simp
  have s: "(if mainfile_property r (traj_parser st) = None then configure_trajectory d r st
          else (Inr (), st)) = (Inr (), ?st2)"
    using assms(2) c by simp
  have s2: "(if mainfile_property r (traj_parser ?st2) = None then configure_trajectory d r ?st2
          else (Inr (), ?st2)) = (Inr (), ?st2)"
    using c2 by simp
  have e: "get_trajectory d r st frame = get_trajectory d r ?st2 frame"
    by (simp add: get_trajectory_def assms(1,2) c c2)
  from get_trajectory_tail_fields[OF assms(1) s] e show ?thesis by simp
qed

lemma default_trajectory_name:
  assumes "inp r ''MOTION/PRINT/TRAJECTORY/FILENAME'' = None"
    "inp r ''MOTION/PRINT/TRAJECTORY/FORMAT'' = None"
    "inp r ''GLOBAL/PROJECT_NAME'' = Some project"
  shows "format_s (normalize_filename r
                       (py_strip (inp_get r ''MOTION/PRINT/TRAJECTORY/FILENAME'' '''')))
           @ ''-pos-1.''
           @ file_extension (py_strip (inp_get r ''MOTION/PRINT/TRAJECTORY/FORMAT'' ''XYZ''))
         = project @ ''-pos-1.xyz''"
proof -
  have "py_strip ''XYZ'' = ''XYZ''" by code_simp
  then show ?thesis using assms
    by (simp add: inp_get_def dict_get_def normalize_filename_def format_s_def
        file_extension_def py_strip_def)
qed

lemma get_lattice_vectors_zero_frequency:
  assumes "frame \<noteq> 0" "mainfile_property r (cell_parser st) = None"
    and "frequency_and_filename (dict_get (settings_md r) ''simulation_cell'' ''0 none'') = Inr (0, fname)"
    and "py_strip (inp_get r ''MOTION/PRINT/CELL/FILENAME'' '''') = cellfile" "cellfile \<noteq> []"
    and "resolve_unit d (inp_get r ''MOTION/PRINT/TRAJECTORY/UNIT'' ''angstrom'') [] = Inr u"
  shows "cell_parser (snd (get_lattice_vectors (Suc d) r st frame)) =
    (cell_parser st)\<lparr>mainfile := Some (path_join (maindir r) cellfile), units := u, frequency := 1\<rparr>"
  using assms by (simp add: Let_def split: sum.splits)

lemma get_md_output_zero_frequency:
  assumes "mainfile_property r (energy_parser st) = None"
    and "frequency_and_filename (dict_get (settings_md r) ''energies'' ''0, none'') = Inr (0, fname)"
  shows "get_md_output r st frame = (Inr [], st)"
  using assms by (simp add: get_md_output_def)

subsection \<open>A print frequency of 0\<close>

text \<open>
  C4, as the code has it, for a parser whose main file is not set or not there, and a
  setting whose frequency is 0. For the coordinates, \<open>get_trajectory\<close> (for a frame after
  the initial one) stores the frequency 1 and the file \<open>name-pos-1.ext\<close> in the main
  directory, where \<open>name\<close> is the normalised \<open>MOTION/PRINT/TRAJECTORY/FILENAME\<close> and \<open>ext\<close> the
  extension of the trajectory format, and goes on as a call on the parser so configured
  does; with neither of the two in the input the file is \<open>project-pos-1.xyz\<close>. For the
  simulation cell the frequency is 1 and the file is the non-empty
  \<open>MOTION/PRINT/CELL/FILENAME\<close> of the input, not a default name. For the energies nothing
  is substituted: \<open>get_md_output\<close> returns the empty \<open>dict\<close> and leaves the parsers as they
  are. The unit of the input must resolve.
\<close>

theorem zero_frequency_substitution:
  "(frame \<noteq> 0 \<and> mainfile_property r (traj_parser st) = None \<and>
    frequency_and_filename (dict_get (settings_md r) ''coordinates'' ''0 none'') = Inr (0, fname) \<and>
    resolve_unit d (inp_get r ''MOTION/PRINT/TRAJECTORY/UNIT'' ''angstrom'') [] = Inr u \<and>
    path = path_join (maindir r)
             (format_s (normalize_filename r
                          (py_strip (inp_get r ''MOTION/PRINT/TRAJECTORY/FILENAME'' '''')))
              @ ''-pos-1.''
              @ file_extension (py_strip (inp_get r ''MOTION/PRINT/TRAJECTORY/FORMAT'' ''XYZ'')))
    \<longrightarrow> mainfile (traj_parser (snd (get_trajectory d r st frame))) = Some path \<and>
        units (traj_parser (snd (get_trajectory d r st frame))) = u \<and>
        frequency (traj_parser (snd (get_trajectory d r st frame))) = 1 \<and>
        get_trajectory d r st frame =
        get_trajectory d r
          (st\<lparr>traj_parser := (traj_parser st)\<lparr>mainfile := Some path, units := u, frequency := 1\<rparr>\<rparr>)
          frame) \<and>
   (inp r ''MOTION/PRINT/TRAJECTORY/FILENAME'' = None \<and>
    inp r ''MOTION/PRINT/TRAJECTORY/FORMAT'' = None \<and>
    inp r ''GLOBAL/PROJECT_NAME'' = Some project
    \<longrightarrow> format_s (normalize_filename r
                    (py_strip (inp_get r ''MOTION/PRINT/TRAJECTORY/FILENAME'' '''')))
        @ ''-pos-1.''
        @ file_extension (py_strip (inp_get r ''MOTION/PRINT/TRAJECTORY/FORMAT'' ''XYZ''))
        = project @ ''-pos-1.xyz'') \<and>
   (frame \<noteq> 0 \<and> mainfile_property r (cell_parser st) = None \<and>
    frequency_and_filename (dict_get (settings_md r) ''simulation_cell'' ''0 none'') = Inr (0, fname) \<and>
    py_strip (inp_get r ''MOTION/PRINT/CELL/FILENAME'' '''') = cellfile \<and> cellfile \<noteq> [] \<and>
    resolve_unit d (inp_get r ''MOTION/PRINT/TRAJECTORY/UNIT'' ''angstrom'') [] = Inr u
    \<longrightarrow> cell_parser (snd (get_lattice_vectors (Suc d) r st frame)) =
        (cell_parser st)
          \<lparr>mainfile := Some (path_join (maindir r) cellfile), units := u, frequency := 1\<rparr>) \<and>
   (mainfile_property r (energy_parser st) = None \<and>
    frequency_and_filename (dict_get (settings_md r) ''energies'' ''0, none'') = Inr (0, fname)
    \<longrightarrow> get_md_output r st frame = (Inr [], st))"
  using get_trajectory_zero_frequency[of frame r st fname d u path]
    default_trajectory_name[of r project]
    get_lattice_vectors_zero_frequency[of frame r st fname cellfile d u]
    get_md_output_zero_frequency[of r st fname frame]
  by blast

lemma frequency_and_filename_0_none: "frequency_and_filename ''0 none'' = Inr (0, ''none'')"
  by code_simp

lemma resolve_unit_angstrom: "resolve_unit (Suc d) ''angstrom'' [] = Inr (PUnit ''angstrom'')"
  by code_simp

text \<open>
  C4, witness: the run prints everything with the setting \<open>0 none\<close>; its project is \<open>proj\<close>,
  its main directory \<open>/run\<close>, and its input names neither a trajectory file nor a format.
  The trajectory file is \<open>/run/proj-pos-1.xyz\<close> with frequency 1, frame 2 is read from
  it, the cell file is the configured \<open>proj-1.cell\<close>, and the energies are the empty \<open>dict\<close>.
\<close>

theorem zero_frequency_substitution_witness:
  "get_trajectory 1 example_run new_parsers 2 =
     (Inr (Some ''frame 2''),
      new_parsers\<lparr>traj_parser :=
        \<lparr>mainfile = Some ''/run/proj-pos-1.xyz'', units = PUnit ''angstrom'',
         frequency = 1, step = [], format = Some ''xyz''\<rparr>\<rparr>) \<and>
   cell_parser (snd (get_lattice_vectors 2 example_run new_parsers 1)) =
     \<lparr>mainfile = Some ''/run/proj-1.cell'', units = PUnit ''angstrom'',
      frequency = 1, step = [], format = None\<rparr> \<and>
   get_md_output example_run new_parsers 5 = (Inr [], new_parsers)"
proof -
  have s: "dict_get (settings_md example_run) ''coordinates'' ''0 none'' = ''0 none''"
    "dict_get (settings_md example_run) ''simulation_cell'' ''0 none'' = ''0 none''"
    "dict_get (settings_md example_run) ''energies'' ''0, none'' = ''0 none''"
    by (simp_all add: example_run_def dict_get_def)
  have i: "inp example_run ''MOTION/PRINT/TRAJECTORY/FILENAME'' = None"
    "inp example_run ''MOTION/PRINT/TRAJECTORY/FORMAT'' = None"
    "inp example_run ''GLOBAL/PROJECT_NAME'' = Some ''proj''"
    "inp_get example_run ''MOTION/PRINT/TRAJECTORY/UNIT'' ''angstrom'' = ''angstrom''"
    "inp_get example_run ''MOTION/PRINT/CELL/FILENAME'' '''' = ''proj-1.cell''"
    by (simp_all add: example_run_def inp_get_def dict_get_def)
  have c: "py_strip ''proj-1.cell'' = ''proj-1.cell''" by code_simp
  have m: "mainfile_property example_run (traj_parser new_parsers) = None"
    "mainfile_property example_run (cell_parser new_parsers) = None"
    "mainfile_property example_run (energy_parser new_parsers) = None"
    "maindir example_run = ''/run''"
    by (simp_all add: mainfile_property_def new_parsers_def new_parser_def example_run_def)
  have p: "path_join ''/run'' ''proj-pos-1.xyz'' = ''/run/proj-pos-1.xyz''"
    "path_join ''/run'' ''proj-1.cell'' = ''/run/proj-1.cell''"
    by (simp_all add: path_join_def)
  have g: "get_trajectory 1 example_run
             (new_parsers\<lparr>traj_parser := (traj_parser new_parsers)
                \<lparr>mainfile := Some ''/run/proj-pos-1.xyz'', units := PUnit ''angstrom'',
                 frequency := 1\<rparr>\<rparr>) 2 =
     (Inr (Some ''frame 2''),
      new_parsers\<lparr>traj_parser :=
        \<lparr>mainfile = Some ''/run/proj-pos-1.xyz'', units = PUnit ''angstrom'',
         frequency = 1, step = [], format = Some ''xyz''\<rparr>\<rparr>)"
    by code_simp
  have t: "get_trajectory 1 example_run new_parsers 2 =
     (Inr (Some ''frame 2''),
      new_parsers\<lparr>traj_parser :=
        \<lparr>mainfile = Some ''/run/proj-pos-1.xyz'', units = PUnit ''angstrom'',
         frequency = 1, step = [], format = Some ''xyz''\<rparr>\<rparr>)"
    using zero_frequency_substitution
      [where r = example_run and st = new_parsers and frame = 2 and d = 1
         and fname = "''none''" and u = "PUnit ''angstrom''" and project = "''proj''"
         and path = "''/run/proj-pos-1.xyz''"]
      s i m p g frequency_and_filename_0_none resolve_unit_angstrom[of 0]
    by simp
  have l: "cell_parser (snd (get_lattice_vectors 2 example_run new_parsers 1)) =
     \<lparr>mainfile = Some ''/run/proj-1.cell'', units = PUnit ''angstrom'',
      frequency = 1, step = [], format = None\<rparr>"
    using zero_frequency_substitution
      [where r = example_run and st = new_parsers and frame = 1 and d = 1
         and fname = "''none''" and u = "PUnit ''angstrom''" and cellfile = "''proj-1.cell''"]
      s i m p c frequency_and_filename_0_none resolve_unit_angstrom[of 0]
    by (simp add: new_parsers_def new_parser_def numeral_2_eq_2)
  have e: "get_md_output example_run new_parsers 5 = (Inr [], new_parsers)"
    using zero_frequency_substitution
      [where r = example_run and st = new_parsers and frame = 5 and fname = "''none''"]
      s m frequency_and_filename_0_none
    by simp
  from t l e show ?thesis by simp
qed

text \<open>
  C4, counterexample: the energies are printed with the setting \<open>0 none\<close> and the energy
  parser has no main file; \<open>get_md_output\<close> returns the empty \<open>dict\<close> and the parsers are
  unchanged: no file name and no frequency is substituted, and nothing is looked up.
\<close>

theorem md_energies_zero_frequency_counterexample:
  "get_md_output example_run new_parsers 1 = (Inr [], new_parsers) \<and>
   mainfile (energy_parser new_parsers) = None \<and>
   frequency_and_filename (dict_get (settings_md example_run) ''energies'' ''0, none'')
     = Inr (0, ''none'')"
proof -
  have s: "dict_get (settings_md example_run) ''energies'' ''0, none'' = ''0 none''"
    by (simp add: example_run_def dict_get_def)
  have m: "mainfile (energy_parser new_parsers) = None"
    by (simp add: new_parsers_def new_parser_def)
  show ?thesis
    using s m frequency_and_filename_0_none
    by (simp add: get_md_output_def mainfile_property_def)
qed

subsection \<open>Replayed trajectories, recorded iterations and frames off the stride\<close>

lemma lower_char_neq_R: "lower_char c \<noteq> CHR ''R''"
  by (auto simp: lower_char_def split: option.splits if_splits)

lemma lower_neq_REFTRAJ: "lower t \<noteq> ''REFTRAJ''"
proof
  assume "lower t = ''REFTRAJ''"
  then have "CHR ''R'' \<in> set (lower t)" by simp
  then obtain c where "lower_char c = CHR ''R''" by (auto simp: lower_def)
  then show False by (simp add: lower_char_neq_R)
qed

text \<open>
  C5: in a molecular-dynamics run with the ensemble \<open>REFTRAJ\<close> at frame 2, the lookup of
  the positions is shifted (frame 2 gives the record at position 1), and
  \<open>get_velocities\<close> returns \<open>None\<close> although the velocity file has a record for the frame:
  it leaves at once when the output has a molecular-dynamics section, and its test
  \<open>get_ensemble_type(frame).lower() == "REFTRAJ"\<close> compares a lower-cased string with an
  upper-case one, which no string satisfies.
\<close>

theorem reftraj_shift_missed_for_velocities:
  "get_ensemble_type reftraj_run 2 = Inr (Some ''REFTRAJ'') \<and>
   get_trajectory 1 reftraj_run reftraj_parsers 2 = (Inr (Some ''position 1''), reftraj_parsers) \<and>
   get_velocities 1 reftraj_run reftraj_parsers 2 = (Inr None, reftraj_parsers) \<and>
   lower t \<noteq> ''REFTRAJ''"
proof -
  have e: "get_ensemble_type reftraj_run 2 = Inr (Some ''REFTRAJ'')"
    by (simp add: get_ensemble_type_def sampling_method_def reftraj_run_def example_run_def
        py_index_def)
  have t: "get_trajectory 1 reftraj_run reftraj_parsers 2
            = (Inr (Some ''position 1''), reftraj_parsers)"
    by code_simp
  have v: "get_velocities 1 reftraj_run reftraj_parsers 2 = (Inr None, reftraj_parsers)"
    by (simp add: get_velocities_def reftraj_run_def example_run_def)
  from e t v lower_neq_REFTRAJ show ?thesis by simp
qed



lemma lattice_vectors_off_stride:
  "frequency (cell_parser configured_parsers) = 2 \<and>
   get_lattice_vectors 1 example_run configured_parsers 3 = (Inr None, configured_parsers)"
proof -
  have a: "frequency (cell_parser configured_parsers) = 2"
    by (simp add: configured_parsers_def)
  have b: "get_lattice_vectors 1 example_run configured_parsers 3
     = (Inr None, configured_parsers)"
    by code_simp
  from a b show ?thesis by simp
qed

text \<open>
  C7: the trajectory file is written every second step and has no recorded iterations.
  Frame 3 is not a multiple of 2, and \<open>get_trajectory\<close> returns the record at position
  \<open>3 // 2 = 1\<close>, the frame of iteration 2, where the claim has \<open>None\<close>; for the frame -1
  it returns \<open>None\<close>. \<open>get_lattice_vectors\<close> does test \<open>frame % _frequency != 0\<close>
  (\<open>lattice_vectors_off_stride\<close>); \<open>get_trajectory\<close> has no such test.
\<close>

theorem off_stride_frame_not_rejected:
  "frequency (traj_parser stride_parsers) = 2 \<and>
   trajectory_file stride_run (Some ''/run/proj-pos-2.dcd'') ''dcd'' (PUnit ''angstrom'')
     = Inr (Some ([''frame 0'', ''frame 2'', ''frame 4''], [])) \<and>
   get_trajectory 1 stride_run stride_parsers 3 = (Inr (Some ''frame 2''), stride_parsers) \<and>
   get_trajectory 1 stride_run stride_parsers (- 1) = (Inr None, stride_parsers)"
proof -
  have a: "frequency (traj_parser stride_parsers) = 2"
    "trajectory_file stride_run (Some ''/run/proj-pos-2.dcd'') ''dcd'' (PUnit ''angstrom'')
     = Inr (Some ([''frame 0'', ''frame 2'', ''frame 4''], []))"
    by (simp_all add: stride_parsers_def new_parsers_def stride_run_def example_run_def)
  have b: "get_trajectory 1 stride_run stride_parsers 3
     = (Inr (Some ''frame 2''), stride_parsers)"
    by code_simp
  have c: "get_trajectory 1 stride_run stride_parsers (- 1) = (Inr None, stride_parsers)"
    by code_simp
  from a b c show ?thesis by simp
qed


section \<open>Properties of the loop over the calculations\<close>

lemma parse_calculation_not_last:
  "Warning f \<notin> set (fst (parse_calculation self md False frame st)) \<and>
   ParseSystem (ByFrame (frame + 1)) \<notin> set (fst (parse_calculation self md False frame st)) \<and>
   fst (snd (parse_calculation self md False frame st)) = None"
  by (simp add: parse_calculation_def Let_def system_ref_def split: prod.splits)

text \<open>
  C8: a geometry optimisation whose output has no final single point: the list of the
  calculations is the optimisation, its steps 1 and 2, and \<open>None\<close>. The systems of the
  frames 1 and 2 are missing and the system of frame 3 is there. The loop looks up frame
  2 once and goes on: no warning and no lookup of frame 3, because step 2 is not at the
  last position of the list. When the list ends with step 2, the loop warns and looks up
  frame 3; with a logger that does not take the keyword \<open>data\<close> the warning raises
  \<open>TypeError\<close> and the loop ends before the second lookup.
\<close>

theorem last_step_before_none_not_retried:
  "parse_calculations example_methods False
     [Some (Calculation None), Some (Calculation (Some 1)), Some (Calculation (Some 2)), None] 0 =
   ([ParseScc 0, ParseSystem AtomicCoordinates, SystemRef,
     ParseScc 1, ParseSystem (ByFrame 1),
     ParseScc 2, ParseSystem (ByFrame 2)],
    None, 3) \<and>
   parse_calculations example_methods False
     [Some (Calculation None), Some (Calculation (Some 1)), Some (Calculation (Some 2))] 0 =
   ([ParseScc 0, ParseSystem AtomicCoordinates, SystemRef,
     ParseScc 1, ParseSystem (ByFrame 1),
     ParseScc 2, ParseSystem (ByFrame 2), Warning 2, ParseSystem (ByFrame 3), SystemRef],
    None, 4) \<and>
   parse_calculations (example_methods\<lparr>logger_with_data := False\<rparr>) False
     [Some (Calculation None), Some (Calculation (Some 1)), Some (Calculation (Some 2))] 0 =
   ([ParseScc 0, ParseSystem AtomicCoordinates, SystemRef,
     ParseScc 1, ParseSystem (ByFrame 1),
     ParseScc 2, ParseSystem (ByFrame 2)],
    Some TypeError, 3)"
proof -
  have a: "parse_calculations example_methods False
     [Some (Calculation None), Some (Calculation (Some 1)), Some (Calculation (Some 2)), None] 0 =
   ([ParseScc 0, ParseSystem AtomicCoordinates, SystemRef,
     ParseScc 1, ParseSystem (ByFrame 1),
     ParseScc 2, ParseSystem (ByFrame 2)],
    None, 3)"
    by code_simp
  have b: "parse_calculations example_methods False
     [Some (Calculation None), Some (Calculation (Some 1)), Some (Calculation (Some 2))] 0 =
   ([ParseScc 0, ParseSystem AtomicCoordinates, SystemRef,
     ParseScc 1, ParseSystem (ByFrame 1),
     ParseScc 2, ParseSystem (ByFrame 2), Warning 2, ParseSystem (ByFrame 3), SystemRef],
    None, 4)"
    by code_simp
  have c: "parse_calculations (example_methods\<lparr>logger_with_data := False\<rparr>) False
     [Some (Calculation None), Some (Calculation (Some 1)), Some (Calculation (Some 2))] 0 =
   ([ParseScc 0, ParseSystem AtomicCoordinates, SystemRef,
     ParseScc 1, ParseSystem (ByFrame 1),
     ParseScc 2, ParseSystem (ByFrame 2)],
    Some TypeError, 3)"
    by code_simp
  from a b c show ?thesis by simp
qed


end
